theory Spec2Isabelle
  imports Complex_Main
begin

section \<open>Tensors and \<^verbatim>\<open>nn.Linear\<close>\<close>

text \<open>
  The compaction engine of \<^verbatim>\<open>src/bert/modeling/mixer.py\<close> works on \<^verbatim>\<open>torch.nn.Linear\<close>
  modules. A one-dimensional tensor is a list of scalars, a two-dimensional tensor the list
  of its rows. The scalars are taken exact: the ordered field \<open>rat\<close> stands for the
  floating-point numbers of the source, so that every statement below is one of exact
  arithmetic.
\<close>

type_synonym scalar = rat
type_synonym vec = "scalar list"
type_synonym mat = "scalar list list"

text \<open>
  The exceptions the modelled code can raise: a shape mismatch in a tensor operation
  (\<^verbatim>\<open>RuntimeError\<close>), an index out of range (\<^verbatim>\<open>IndexError\<close>), a failed
  \<^verbatim>\<open>assert\<close>, an attribute that the object does not have (\<^verbatim>\<open>AttributeError\<close>) and
  the subscript of an object that has none (\<^verbatim>\<open>TypeError\<close>).
\<close>

datatype error = RuntimeError | IndexError | AssertionError | AttributeError | TypeError

text \<open>
  \<^verbatim>\<open>nn.Linear(in_features, out_features, bias)\<close>: the weight has shape
  \<^verbatim>\<open>(out_features, in_features)\<close>, the bias is \<^verbatim>\<open>None\<close> or has shape
  \<^verbatim>\<open>(out_features,)\<close>.
\<close>

record linear =
  in_features :: nat
  out_features :: nat
  weight :: mat
  bias :: "vec option"

definition wf_linear :: "linear \<Rightarrow> bool" where
  "wf_linear l \<longleftrightarrow>
     length (weight l) = out_features l \<and>
     list_all (\<lambda>r. length r = in_features l) (weight l) \<and>
     (case bias l of None \<Rightarrow> True | Some b \<Rightarrow> length b = out_features l)"

text \<open>The scalar product of two vectors of one length.\<close>

definition dot :: "vec \<Rightarrow> vec \<Rightarrow> scalar" where
  "dot u v = (\<Sum>k<length u. u ! k * v ! k)"

text \<open>\<^verbatim>\<open>W @ x\<close> for a matrix and a vector.\<close>

definition matvec :: "mat \<Rightarrow> vec \<Rightarrow> vec" where
  "matvec W x = map (\<lambda>r. dot r x) W"

text \<open>
  \<^verbatim>\<open>B @ A\<close> for two matrices, \<open>n\<close> the number of columns of \<open>A\<close>: entry \<open>(i, j)\<close> is
  the sum over \<open>k\<close> of \<open>B[i][k] * A[k][j]\<close>.
\<close>

definition matmul :: "mat \<Rightarrow> mat \<Rightarrow> nat \<Rightarrow> mat" where
  "matmul B A n = map (\<lambda>b. map (\<lambda>j. \<Sum>k<length b. b ! k * A ! k ! j) [0..<n]) B"

definition vadd :: "vec \<Rightarrow> vec \<Rightarrow> vec" where
  "vadd u v = map (\<lambda>k. u ! k + v ! k) [0..<length u]"

text \<open>
  The forward pass \<^verbatim>\<open>F.linear(x, weight, bias)\<close> on one input vector: \<open>W x + b\<close>, a
  \<^verbatim>\<open>RuntimeError\<close> when the width of \<open>x\<close> is not \<^verbatim>\<open>in_features\<close>.
\<close>

definition forward :: "linear \<Rightarrow> vec \<Rightarrow> error + vec" where
  "forward l x =
     (if length x \<noteq> in_features l then Inl RuntimeError
      else Inr (case bias l of
                  None \<Rightarrow> matvec (weight l) x
                | Some b \<Rightarrow> vadd (matvec (weight l) x) b))"

text \<open>Sequencing of computations that may raise.\<close>

definition bind :: "error + 'a \<Rightarrow> ('a \<Rightarrow> error + 'b) \<Rightarrow> error + 'b" where
  "bind m f = (case m of Inl e \<Rightarrow> Inl e | Inr a \<Rightarrow> f a)"

section \<open>\<^verbatim>\<open>LinearMixer\<close>\<close>

text \<open>
  \<^verbatim>\<open>LinearMixer.merge(self, other)\<close>, lines 72-90. The product
  \<^verbatim>\<open>other.weight @ self.linear.weight\<close> raises when the inner dimensions differ. The
  new module has a bias only when both operands have one; \<^verbatim>\<open>new_bias\<close> starts as the
  scalar \<open>0\<close> (a zero vector once it is broadcast) and receives the contribution of each
  bias that is present; it is copied only into a module that has a bias.
\<close>

definition merge :: "linear \<Rightarrow> linear \<Rightarrow> error + linear" where
  "merge self other =
     (let in_f = in_features self;
          out_f = out_features other;
          has_bias = (bias self \<noteq> None \<and> bias other \<noteq> None)
      in if in_features other \<noteq> out_features self then Inl RuntimeError
         else
           let new_weight = matmul (weight other) (weight self) in_f;
               new_bias0 = replicate out_f 0;
               new_bias1 = (case bias self of
                              None \<Rightarrow> new_bias0
                            | Some b \<Rightarrow> vadd new_bias0 (matvec (weight other) b));
               new_bias2 = (case bias other of
                              None \<Rightarrow> new_bias1
                            | Some b \<Rightarrow> vadd new_bias1 b)
           in Inr \<lparr>in_features = in_f, out_features = out_f, weight = new_weight,
                   bias = (if has_bias then Some new_bias2 else None)\<rparr>)"

text \<open>
  Indexing a dimension of size \<open>n\<close> with an integer tensor: an index \<open>i\<close> with
  \<open>0 \<le> i < n\<close> is the position \<open>i\<close>, one with \<open>-n \<le> i < 0\<close> counts from the end, any
  other raises \<^verbatim>\<open>IndexError\<close>.
\<close>

definition valid_index :: "nat \<Rightarrow> int \<Rightarrow> bool" where
  "valid_index n i \<longleftrightarrow> - int n \<le> i \<and> i < int n"

definition pos :: "nat \<Rightarrow> int \<Rightarrow> nat" where
  "pos n i = (if i < 0 then nat (int n + i) else nat i)"

definition take_rows :: "'a list \<Rightarrow> int list \<Rightarrow> 'a list" where
  "take_rows xs indices = map (\<lambda>i. xs ! pos (length xs) i) indices"

text \<open>
  \<^verbatim>\<open>LinearMixer.merge_mask(self, indices)\<close>, lines 92-101: the rows
  \<^verbatim>\<open>weight[indices, :]\<close> and the entries \<^verbatim>\<open>bias[indices]\<close>.
\<close>

definition merge_mask :: "linear \<Rightarrow> int list \<Rightarrow> error + linear" where
  "merge_mask self indices =
     (let in_f = in_features self;
          out_f = length indices;
          has_bias = (bias self \<noteq> None)
      in if \<not> list_all (valid_index (length (weight self))) indices then Inl IndexError
         else case bias self of
                None \<Rightarrow>
                  Inr \<lparr>in_features = in_f, out_features = out_f,
                       weight = take_rows (weight self) indices, bias = None\<rparr>
              | Some b \<Rightarrow>
                  if \<not> list_all (valid_index (length b)) indices then Inl IndexError
                  else Inr \<lparr>in_features = in_f, out_features = out_f,
                            weight = take_rows (weight self) indices,
                            bias = Some (take_rows b indices)\<rparr>)"

text \<open>
  The selection matrix of an index list over \<open>n\<close> positions, in the words of the
  specification: row \<open>k\<close> is the unit vector of the position that \<open>indices[k]\<close> names.
  As a transform it is a plain matrix, with no bias.
\<close>

definition SelectionMatrix :: "nat \<Rightarrow> int list \<Rightarrow> linear" where
  "SelectionMatrix n indices =
     \<lparr>in_features = n, out_features = length indices,
      weight = map (\<lambda>i. map (\<lambda>j. if j = pos n i then 1 else 0) [0..<n]) indices,
      bias = None\<rparr>"

section \<open>Masks, compactors and wrapped modules\<close>

text \<open>
  The classes of \<^verbatim>\<open>modeling/compactor.py\<close> are imported by \<^verbatim>\<open>mixer.py\<close> (lines 21-27)
  and their file is not part of the sources at hand; the methods that \<^verbatim>\<open>mix\<close> calls on
  them are modelled from the specification.
\<close>

datatype side = Input | Output

record mask =
  gates :: vec
  threshold :: scalar

text \<open>
  Modelled from the spec: \<^verbatim>\<open>Mask.parse\<close> is missing. It returns \<^verbatim>\<open>(values, indices)\<close>:
  the indices are the ascending positions of the features whose gate exceeds the drop
  threshold, the values are the gates at these positions.
\<close>

definition parse :: "mask \<Rightarrow> vec \<times> int list" where
  "parse m =
     (let kept = filter (\<lambda>i. threshold m < gates m ! i) [0..<length (gates m)]
      in (map (\<lambda>i. gates m ! i) kept, map int kept))"

definition scale_rows :: "vec \<Rightarrow> mat \<Rightarrow> mat" where
  "scale_rows v W = map (\<lambda>k. map (\<lambda>a. v ! k * a) (W ! k)) [0..<length W]"

definition vmul :: "vec \<Rightarrow> vec \<Rightarrow> vec" where
  "vmul v b = map (\<lambda>k. v ! k * b ! k) [0..<length b]"

definition take_cols :: "mat \<Rightarrow> int list \<Rightarrow> mat" where
  "take_cols W indices = map (\<lambda>r. take_rows r indices) W"

text \<open>
  Modelled from the spec: \<^verbatim>\<open>Compactor.extract(side, indices, values)\<close> is missing. A
  compactor is an affine transform. On the output side the extraction selects the rows of
  the weight at the indices (and the bias entries) and, when values are given, multiplies
  each selected row (and bias entry) by its value: a transform from \<open>D\<close> to \<open>K\<close> features.
  On the input side it selects the columns of the weight at the indices: a transform from
  \<open>K\<close> to \<open>D\<close> features; the specification gives the values no role on that side.
\<close>

definition compactor_extract :: "linear \<Rightarrow> side \<Rightarrow> int list \<Rightarrow> vec option \<Rightarrow> error + linear" where
  "compactor_extract c s indices vals =
     (case s of
        Output \<Rightarrow>
          bind (merge_mask c indices) (\<lambda>l.
            case vals of
              None \<Rightarrow> Inr l
            | Some v \<Rightarrow>
                if length v \<noteq> length indices then Inl RuntimeError
                else Inr (l\<lparr>weight := scale_rows v (weight l),
                           bias := map_option (vmul v) (bias l)\<rparr>))
      | Input \<Rightarrow>
          if \<not> list_all (valid_index (in_features c)) indices then Inl IndexError
          else Inr \<lparr>in_features = length indices, out_features = out_features c,
                    weight = take_cols (weight c) indices, bias = bias c\<rparr>)"

text \<open>
  \<^verbatim>\<open>LayerNormWithCompactor\<close>: the scale and shift of a normalization over \<open>D\<close> features,
  its mask, and the two compactors \<^verbatim>\<open>in_comp\<close> and \<^verbatim>\<open>out_comp\<close>.
\<close>

record layer_norm_with_compactor =
  ln_weight :: vec
  ln_bias :: vec
  ln_mask :: mask
  in_comp :: linear
  out_comp :: linear

text \<open>The normalization that \<^verbatim>\<open>LayerNormWithCompactor.extract\<close> returns.\<close>

record packed_layer_norm =
  pn_weight :: vec
  pn_bias :: vec
  packed_size :: nat

text \<open>
  Modelled from the spec: \<^verbatim>\<open>LayerNormWithCompactor.extract(indices)\<close> is missing. It
  returns the normalization restricted to the \<open>K = len(indices)\<close> kept features, with the
  scale and shift entries at the indices; \<^verbatim>\<open>packed_size\<close> is that \<open>K\<close>.
\<close>

definition layer_norm_extract :: "layer_norm_with_compactor \<Rightarrow> int list \<Rightarrow> error + packed_layer_norm" where
  "layer_norm_extract n indices =
     (if \<not> list_all (valid_index (length (ln_weight n))) indices
         \<or> \<not> list_all (valid_index (length (ln_bias n))) indices then Inl IndexError
      else Inr \<lparr>pn_weight = take_rows (ln_weight n) indices,
                pn_bias = take_rows (ln_bias n) indices,
                packed_size = length indices\<rparr>)"

text \<open>
  The wrapped projections: \<^verbatim>\<open>LinearWithCompactorAfter\<close> (query, key, value) has a base
  transform, a mask and a compactor; \<^verbatim>\<open>LinearWithCompactorBefore\<close> (attention output) has
  a compactor and a base transform; \<^verbatim>\<open>LinearWithMaskBefore\<close> (feed-forward output) has a
  mask and a base transform. Modelled from the spec: their \<^verbatim>\<open>extract()\<close> is missing and
  unwraps to the bare base transform.
\<close>

record linear_with_compactor_after =
  lca_base :: linear
  lca_mask :: mask
  lca_compactor :: linear

record linear_with_compactor_before =
  lcb_compactor :: linear
  lcb_base :: linear

record linear_with_mask_before =
  lmb_mask :: mask
  lmb_base :: linear

text \<open>
  Modelled from the spec: \<^verbatim>\<open>LinearWithMaskBefore.extract(indices, values)\<close> is missing.
  It is the column-extract variant of the base transform: the columns of the weight at the
  indices, each scaled by its value, the bias as it is.
\<close>

definition mask_before_extract :: "linear_with_mask_before \<Rightarrow> int list \<Rightarrow> vec \<Rightarrow> error + linear" where
  "mask_before_extract w indices vals =
     (if \<not> list_all (valid_index (in_features (lmb_base w))) indices then Inl IndexError
      else if length vals \<noteq> length indices then Inl RuntimeError
      else Inr \<lparr>in_features = length indices, out_features = out_features (lmb_base w),
                weight = map (\<lambda>r. vmul vals r) (take_cols (weight (lmb_base w)) indices),
                bias = bias (lmb_base w)\<rparr>)"

section \<open>The model\<close>

text \<open>
  A Python attribute holds any object: \<^verbatim>\<open>mix\<close> stores an \<^verbatim>\<open>nn.Linear\<close> where a wrapped
  projection was. So a sub-module slot holds a value of one type of modules, and the use of
  an attribute that the module in the slot does not have raises \<^verbatim>\<open>AttributeError\<close>.
\<close>

datatype module =
    Linear linear
  | LayerNormWithCompactor layer_norm_with_compactor
  | PackedLayerNorm packed_layer_norm
  | LinearWithCompactorAfter linear_with_compactor_after
  | LinearWithCompactorBefore linear_with_compactor_before
  | LinearWithMaskBefore linear_with_mask_before
  | Sequential "module list"
  | Absent

fun the_linear :: "module \<Rightarrow> error + linear" where
  "the_linear (Linear l) = Inr l"
| "the_linear _ = Inl AttributeError"

fun the_norm :: "module \<Rightarrow> error + layer_norm_with_compactor" where
  "the_norm (LayerNormWithCompactor n) = Inr n"
| "the_norm _ = Inl AttributeError"

fun the_packed_norm :: "module \<Rightarrow> error + packed_layer_norm" where
  "the_packed_norm (PackedLayerNorm n) = Inr n"
| "the_packed_norm _ = Inl AttributeError"

fun the_compactor_after :: "module \<Rightarrow> error + linear_with_compactor_after" where
  "the_compactor_after (LinearWithCompactorAfter w) = Inr w"
| "the_compactor_after _ = Inl AttributeError"

fun the_compactor_before :: "module \<Rightarrow> error + linear_with_compactor_before" where
  "the_compactor_before (LinearWithCompactorBefore w) = Inr w"
| "the_compactor_before _ = Inl AttributeError"

fun the_mask_before :: "module \<Rightarrow> error + linear_with_mask_before" where
  "the_mask_before (LinearWithMaskBefore w) = Inr w"
| "the_mask_before _ = Inl AttributeError"

text \<open>\<^verbatim>\<open>m[i]\<close>: the \<open>i\<close>-th module of an \<^verbatim>\<open>nn.Sequential\<close>.\<close>

fun subscript :: "module \<Rightarrow> nat \<Rightarrow> error + module" where
  "subscript (Sequential ms) i = (if i < length ms then Inr (ms ! i) else Inl IndexError)"
| "subscript _ i = Inl TypeError"

text \<open>
  One \<^verbatim>\<open>CompactBertLayer\<close>, each field named by its attribute path. The two masks of the
  whole sub-blocks, \<^verbatim>\<open>attention.output.mask\<close> and \<^verbatim>\<open>output.mask\<close>, are the ones that
  \<^verbatim>\<open>pipeline/squad/trainer.py\<close> (lines 282-283) reads as \<^verbatim>\<open>MHA_mask\<close> and
  \<^verbatim>\<open>FFN_mask\<close>.
\<close>

record bert_layer =
  attention_self_query :: module
  attention_self_key :: module
  attention_self_value :: module
  attention_output_dense :: module
  attention_output_LayerNorm :: module
  attention_output_residual :: module
  attention_output_mask :: mask
  intermediate_dense :: module
  output_dense :: module
  output_LayerNorm :: module
  output_residual :: module
  output_mask :: mask

text \<open>
  The model: of its configuration only \<^verbatim>\<open>num_attention_heads\<close> is read; the pooler is
  \<^verbatim>\<open>None\<close> or has a \<^verbatim>\<open>dense\<close> slot.
\<close>

record bert_model =
  num_attention_heads :: nat
  embeddings_LayerNorm :: module
  encoder_layer :: "bert_layer list"
  pooler_dense :: "module option"

record packed_bert_layer_config =
  input_dim :: nat
  attn_output_dim :: nat
  ffn_output_dim :: nat
  num_heads :: nat
  qk_dim :: nat
  vo_dim :: nat
  ffn_dim :: nat
  prune_attn :: bool
  prune_ffn :: bool

record packed_bert_config =
  p_num_attention_heads :: nat
  per_layer_config :: "packed_bert_layer_config list"

section \<open>\<^verbatim>\<open>get_packed_bert_config\<close>\<close>

text \<open>
  The loop of lines 42-61 over the layers, \<open>past_layer_norm\<close> being the cursor that the
  loop carries and \<open>heads\<close> the \<^verbatim>\<open>config.num_attention_heads\<close>. The attribute
  \<^verbatim>\<open>packed_size\<close> is read from a reduced normalization and \<^verbatim>\<open>out_features\<close> from an
  \<^verbatim>\<open>nn.Linear\<close>, which is what \<^verbatim>\<open>mix\<close> has put into these slots when it calls the
  function; the wrapped classes are not in the sources, and a slot that holds one of them
  is taken to lack the attribute.
\<close>

fun layer_configs :: "nat \<Rightarrow> module \<Rightarrow> bert_layer list \<Rightarrow> error + packed_bert_layer_config list" where
  "layer_configs heads past_layer_norm [] = Inr []"
| "layer_configs heads past_layer_norm (layer # layers) =
     (let attn_output_norm = attention_output_LayerNorm layer;
          ffn_output_norm = output_LayerNorm layer;
          w_q = attention_self_query layer;
          w_v = attention_self_value layer;
          w_0 = intermediate_dense layer
      in bind (the_packed_norm past_layer_norm) (\<lambda>n0.
         bind (the_packed_norm attn_output_norm) (\<lambda>n1.
         bind (the_packed_norm ffn_output_norm) (\<lambda>n2.
         bind (the_linear w_q) (\<lambda>q.
         bind (the_linear w_v) (\<lambda>v.
         bind (the_linear w_0) (\<lambda>w.
         bind (layer_configs heads ffn_output_norm layers) (\<lambda>rest.
         Inr (\<lparr>input_dim = packed_size n0,
                attn_output_dim = packed_size n1,
                ffn_output_dim = packed_size n2,
                num_heads = heads,
                qk_dim = out_features q,
                vo_dim = out_features v,
                ffn_dim = out_features w,
                prune_attn = False,
                prune_ffn = False\<rparr> # rest)))))))))"

text \<open>\<^verbatim>\<open>get_packed_bert_config(model)\<close>, lines 36-64.\<close>

definition get_packed_bert_config :: "bert_model \<Rightarrow> error + packed_bert_config" where
  "get_packed_bert_config model =
     bind (subscript (embeddings_LayerNorm model) 1) (\<lambda>past_layer_norm.
     bind (layer_configs (num_attention_heads model) past_layer_norm (encoder_layer model))
       (\<lambda>per_layer.
     Inr \<lparr>p_num_attention_heads = num_attention_heads model,
          per_layer_config = per_layer\<rparr>))"

section \<open>\<^verbatim>\<open>CompactorMixer.mix\<close>\<close>

text \<open>
  The body of the loop of lines 126-204 on one layer: it takes the cursor
  \<open>past_layer_norm\<close> and the layer (the \<^verbatim>\<open>module\<close> of the source), and returns the layer
  with its slots assigned and the new cursor, which is the \<^verbatim>\<open>norm2\<close> that the layer had
  on entry.
\<close>

definition mix_layer :: "module \<Rightarrow> bert_layer \<Rightarrow> error + (bert_layer \<times> module)" where
  "mix_layer past_layer_norm layer =
     (let q_module = attention_self_query layer;
          k_module = attention_self_key layer;
          v_module = attention_self_value layer;
          o_module = attention_output_dense layer;
          w1_module = intermediate_dense layer;
          w2_module = output_dense layer
      in
      bind (the_norm past_layer_norm) (\<lambda>norm0.
      bind (the_norm (attention_output_LayerNorm layer)) (\<lambda>norm1.
      bind (the_norm (output_LayerNorm layer)) (\<lambda>norm2.
      let (norm0_values, norm0_indices) = parse (ln_mask norm0);
          (norm1_values, norm1_indices) = parse (ln_mask norm1);
          (norm2_values, norm2_indices) = parse (ln_mask norm2)
      in
      bind (the_compactor_after q_module) (\<lambda>q.
      let (qk_values, qk_indices) = parse (lca_mask q) in
      bind (the_compactor_after v_module) (\<lambda>v.
      let (vo_values, vo_indices) = parse (lca_mask v) in
      bind (the_mask_before w2_module) (\<lambda>w2m.
      let (ffn_values, ffn_indices) = parse (lmb_mask w2m) in
      bind (layer_norm_extract norm1 norm1_indices) (\<lambda>new_norm1.
      bind (layer_norm_extract norm2 norm2_indices) (\<lambda>new_norm2.
      bind (compactor_extract (out_comp norm0) Input norm0_indices (Some norm0_values))
        (\<lambda>norm0_out_comp.
      bind (compactor_extract (in_comp norm1) Output norm1_indices (Some norm1_values))
        (\<lambda>norm1_in_comp.
      bind (merge norm0_out_comp (lca_base q)) (\<lambda>q1.
      bind (compactor_extract (lca_compactor q) Output qk_indices (Some qk_values)) (\<lambda>qc.
      bind (merge q1 qc) (\<lambda>query.
      bind (the_compactor_after k_module) (\<lambda>k.
      bind (merge norm0_out_comp (lca_base k)) (\<lambda>k1.
      bind (compactor_extract (lca_compactor k) Output qk_indices None) (\<lambda>kc.
      bind (merge k1 kc) (\<lambda>key.
      bind (merge norm0_out_comp (lca_base v)) (\<lambda>v1.
      bind (compactor_extract (lca_compactor v) Output vo_indices (Some vo_values)) (\<lambda>vc.
      bind (merge v1 vc) (\<lambda>val.
      bind (the_compactor_before o_module) (\<lambda>ob.
      bind (compactor_extract (lcb_compactor ob) Input vo_indices None) (\<lambda>oc.
      bind (merge oc (lcb_base ob)) (\<lambda>o1.
      bind (merge o1 norm1_in_comp) (\<lambda>output.
      bind (compactor_extract (out_comp norm1) Input norm1_indices (Some norm1_values))
        (\<lambda>norm1_out_comp.
      bind (compactor_extract (in_comp norm2) Output norm2_indices (Some norm2_values))
        (\<lambda>norm2_in_comp.
      bind (the_linear w1_module) (\<lambda>w1l.
      bind (merge norm1_out_comp w1l) (\<lambda>w1a.
      bind (merge_mask w1a ffn_indices) (\<lambda>w1.
      bind (mask_before_extract w2m ffn_indices ffn_values) (\<lambda>w2a.
      bind (merge w2a norm2_in_comp) (\<lambda>w2.
      bind (merge norm0_out_comp norm1_in_comp) (\<lambda>residual1.
      bind (merge norm1_out_comp norm2_in_comp) (\<lambda>residual2.
      Inr (layer\<lparr>attention_output_LayerNorm := PackedLayerNorm new_norm1,
                   output_LayerNorm := PackedLayerNorm new_norm2,
                   attention_self_query := Linear query,
                   attention_self_key := Linear key,
                   attention_self_value := Linear val,
                   attention_output_dense := Linear output,
                   intermediate_dense := Linear w1,
                   output_dense := Linear w2,
                   attention_output_residual := Linear residual1,
                   output_residual := Linear residual2\<rparr>,
           output_LayerNorm layer)))))))))))))))))))))))))))))))))))"

text \<open>The loop itself: the layers in ascending order, the cursor threaded through.\<close>

fun mix_layers :: "module \<Rightarrow> bert_layer list \<Rightarrow> error + (bert_layer list \<times> module)" where
  "mix_layers past_layer_norm [] = Inr ([], past_layer_norm)"
| "mix_layers past_layer_norm (layer # layers) =
     bind (mix_layer past_layer_norm layer) (\<lambda>(new_layer, norm2).
     bind (mix_layers norm2 layers) (\<lambda>(new_layers, last_norm).
     Inr (new_layer # new_layers, last_norm)))"

text \<open>
  Lines 124-222: the loop, then the embedding normalization and the pooler. The result is
  the model as \<^verbatim>\<open>mix\<close> has left it: every assignment to a slot of \<^verbatim>\<open>self.model\<close> is an
  update of the record. An exception ends the run, and the model is not looked at after it.
\<close>

definition mix_model :: "bert_model \<Rightarrow> error + bert_model" where
  "mix_model model =
     bind (mix_layers (embeddings_LayerNorm model) (encoder_layer model))
       (\<lambda>(new_layers, past_layer_norm).
     bind (the_norm (embeddings_LayerNorm model)) (\<lambda>first_norm.
     bind (the_norm past_layer_norm) (\<lambda>last_norm.
     let (first_values, first_indices) = parse (ln_mask first_norm);
         (last_values, last_indices) = parse (ln_mask last_norm)
     in case pooler_dense model of
          None \<Rightarrow> Inl AssertionError
        | Some dense \<Rightarrow>
            bind (compactor_extract (in_comp first_norm) Output first_indices (Some first_values))
              (\<lambda>first_in_comp.
            bind (layer_norm_extract first_norm first_indices) (\<lambda>new_first_norm.
            bind (compactor_extract (out_comp last_norm) Input last_indices (Some last_values))
              (\<lambda>last_out_comp.
            bind (the_linear dense) (\<lambda>dense_linear.
            bind (merge last_out_comp dense_linear) (\<lambda>new_dense.
            Inr (model\<lparr>encoder_layer := new_layers,
                       embeddings_LayerNorm :=
                         Sequential [Linear first_in_comp, PackedLayerNorm new_first_norm],
                       pooler_dense := Some (Linear new_dense)\<rparr>)))))))))"

section \<open>Weight transfer\<close>

text \<open>
  A state dictionary: the parameter tensors by name, in the order of the module tree. Of a
  tensor the transfer looks at the shape and copies the data.
\<close>

record tensor =
  shape :: "nat list"
  data :: "scalar list"

type_synonym state_dict = "(string \<times> tensor) list"

text \<open>
  \<^verbatim>\<open>target.load_state_dict(source, strict)\<close> of \<^verbatim>\<open>torch.nn.Module\<close>: a parameter of the
  target whose name is in the source receives the source's tensor; a name in both with
  tensors of different shapes is an error whatever \<open>strict\<close> is; a name of the target that
  the source lacks and a name of the source that the target lacks are errors only when
  \<open>strict\<close> is set. One case of torch is left out: a one-dimensional source tensor under
  the name of a zero-dimensional parameter, which torch accepts by taking the first entry,
  counts as a difference of shapes here.
\<close>

definition load_state_dict :: "state_dict \<Rightarrow> state_dict \<Rightarrow> bool \<Rightarrow> error + state_dict" where
  "load_state_dict target source strict =
     (let missing_keys = filter (\<lambda>k. map_of source k = None) (map fst target);
          unexpected_keys = filter (\<lambda>k. map_of target k = None) (map fst source);
          size_mismatch =
            filter (\<lambda>(k, t). case map_of source k of
                               None \<Rightarrow> False
                             | Some s \<Rightarrow> shape s \<noteq> shape t) target
      in if size_mismatch \<noteq> [] \<or> (strict \<and> (missing_keys \<noteq> [] \<or> unexpected_keys \<noteq> []))
         then Inl RuntimeError
         else Inr (map (\<lambda>(k, t). (k, case map_of source k of None \<Rightarrow> t | Some s \<Rightarrow> s))
                     target))"

text \<open>The packed model that \<^verbatim>\<open>mix\<close> returns: its configuration and its parameters.\<close>

record packed_model =
  pm_config :: packed_bert_config
  pm_state_dict :: state_dict

text \<open>
  \<^verbatim>\<open>CompactorMixer.mix\<close>, lines 121-228. The constructor's \<^verbatim>\<open>factory\<close> builds the packed
  model from the configuration, here the fresh parameters of that model, and
  \<open>state_dict_of\<close> is \<^verbatim>\<open>torch.nn.Module.state_dict\<close> on the model. The result pairs the
  model as it is left with the packed model returned.
\<close>

definition mix ::
  "(packed_bert_config \<Rightarrow> state_dict) \<Rightarrow> (bert_model \<Rightarrow> state_dict) \<Rightarrow> bert_model
   \<Rightarrow> error + (bert_model \<times> packed_model)" where
  "mix factory state_dict_of model =
     bind (mix_model model) (\<lambda>new_model.
     bind (get_packed_bert_config new_model) (\<lambda>p_config.
     bind (load_state_dict (factory p_config) (state_dict_of new_model) False) (\<lambda>loaded.
     Inr (new_model, \<lparr>pm_config = p_config, pm_state_dict = loaded\<rparr>))))"

section \<open>The claims in the words of the specification\<close>

text \<open>The number of indices that a mask keeps.\<close>

definition kept_count :: "mask \<Rightarrow> nat" where
  "kept_count m = length (snd (parse m))"

text \<open>
  The query chain as the specification words it: the \<^verbatim>\<open>out_comp\<close> of \<^verbatim>\<open>norm0\<close>
  extracted on its output side with the indices and values of the mask of \<^verbatim>\<open>norm0\<close>,
  then the base query transform, then the compactor of the query module extracted on its
  output side with the indices and values of the query mask.
\<close>

definition spec_query_chain :: "layer_norm_with_compactor \<Rightarrow> linear_with_compactor_after \<Rightarrow> error + linear" where
  "spec_query_chain norm0 q =
     (let (norm0_values, norm0_indices) = parse (ln_mask norm0);
          (qk_values, qk_indices) = parse (lca_mask q)
      in bind (compactor_extract (out_comp norm0) Output norm0_indices (Some norm0_values))
           (\<lambda>first.
         bind (merge first (lca_base q)) (\<lambda>q1.
         bind (compactor_extract (lca_compactor q) Output qk_indices (Some qk_values)) (\<lambda>qc.
         merge q1 qc))))"

text \<open>
  The normalization that precedes layer \<open>i\<close>: the embedding normalization for the first
  layer, the post-feed-forward normalization of the layer before for any other.
\<close>

definition preceding_norm :: "bert_model \<Rightarrow> nat \<Rightarrow> module" where
  "preceding_norm model i =
     (if i = 0 then embeddings_LayerNorm model
      else output_LayerNorm (encoder_layer model ! (i - 1)))"

text \<open>
  Dimension accounting for one layer: every width of the layer configuration \<open>c\<close> is the
  number of indices kept by the mask it belongs to, the masks being those of the layer \<open>l\<close>
  of the trained model and of the normalization \<open>prev\<close> before it.
\<close>

definition widths_account :: "module \<Rightarrow> bert_layer \<Rightarrow> packed_bert_layer_config \<Rightarrow> bool" where
  "widths_account prev l c =
     (case (prev, attention_output_LayerNorm l, output_LayerNorm l,
            attention_self_query l, attention_self_value l, output_dense l) of
        (LayerNormWithCompactor n0, LayerNormWithCompactor n1, LayerNormWithCompactor n2,
         LinearWithCompactorAfter q, LinearWithCompactorAfter v, LinearWithMaskBefore w2) \<Rightarrow>
          input_dim c = kept_count (ln_mask n0) \<and>
          attn_output_dim c = kept_count (ln_mask n1) \<and>
          ffn_output_dim c = kept_count (ln_mask n2) \<and>
          qk_dim c = kept_count (lca_mask q) \<and>
          vo_dim c = kept_count (lca_mask v) \<and>
          ffn_dim c = kept_count (lmb_mask w2)
      | _ \<Rightarrow> False)"

text \<open>
  A sub-block of a layer is pruned away entirely when the mask of the whole sub-block keeps
  nothing.
\<close>

definition attention_pruned :: "bert_layer \<Rightarrow> bool" where
  "attention_pruned l \<longleftrightarrow> kept_count (attention_output_mask l) = 0"

definition ffn_pruned :: "bert_layer \<Rightarrow> bool" where
  "ffn_pruned l \<longleftrightarrow> kept_count (output_mask l) = 0"

text \<open>
  A layer that compaction has been through: the projections are plain \<^verbatim>\<open>nn.Linear\<close>
  modules and the normalizations are reduced ones.
\<close>

definition compacted_layer :: "bert_layer \<Rightarrow> bool" where
  "compacted_layer l =
     (case (attention_self_query l, attention_self_key l, attention_self_value l,
            attention_output_dense l, intermediate_dense l, output_dense l,
            attention_output_residual l, output_residual l,
            attention_output_LayerNorm l, output_LayerNorm l) of
        (Linear _, Linear _, Linear _, Linear _, Linear _, Linear _, Linear _, Linear _,
         PackedLayerNorm _, PackedLayerNorm _) \<Rightarrow> True
      | _ \<Rightarrow> False)"

text \<open>
  Two key modules that differ at most in their mask, two layers that differ at most in the
  mask of the key module, and two models that do.
\<close>

definition same_key_but_mask :: "module \<Rightarrow> module \<Rightarrow> bool" where
  "same_key_but_mask k1 k2 =
     (case (k1, k2) of
        (LinearWithCompactorAfter a, LinearWithCompactorAfter b) \<Rightarrow>
          lca_base a = lca_base b \<and> lca_compactor a = lca_compactor b
      | _ \<Rightarrow> k1 = k2)"

definition same_layer_but_key_mask :: "bert_layer \<Rightarrow> bert_layer \<Rightarrow> bool" where
  "same_layer_but_key_mask l1 l2 \<longleftrightarrow>
     l1\<lparr>attention_self_key := Absent\<rparr> = l2\<lparr>attention_self_key := Absent\<rparr> \<and>
     same_key_but_mask (attention_self_key l1) (attention_self_key l2)"

definition same_but_key_mask :: "bert_model \<Rightarrow> bert_model \<Rightarrow> bool" where
  "same_but_key_mask m1 m2 \<longleftrightarrow>
     num_attention_heads m1 = num_attention_heads m2 \<and>
     embeddings_LayerNorm m1 = embeddings_LayerNorm m2 \<and>
     pooler_dense m1 = pooler_dense m2 \<and>
     list_all2 same_layer_but_key_mask (encoder_layer m1) (encoder_layer m2)"

section \<open>Example inputs\<close>

text \<open>
  Small transforms on which the definitions are evaluated: \<open>ex_A\<close> maps two features to
  two and has a bias, \<open>ex_B\<close> maps two features to one and has none, \<open>ex_C\<close> maps one
  feature to one and has a bias.
\<close>

definition ex_A :: linear where
  "ex_A = \<lparr>in_features = 2, out_features = 2, weight = [[1, 2], [3, 4]], bias = Some [1, 1]\<rparr>"

definition ex_B :: linear where
  "ex_B = \<lparr>in_features = 2, out_features = 1, weight = [[1, 1]], bias = None\<rparr>"

definition ex_C :: linear where
  "ex_C = \<lparr>in_features = 1, out_features = 1, weight = [[2]], bias = Some [5]\<rparr>"

text \<open>
  A model of hidden width two with one layer. The embedding normalization \<open>ex_norm0\<close>
  keeps feature \<open>0\<close>, \<open>ex_norm1\<close> keeps both features and \<open>ex_norm2\<close> keeps feature \<open>1\<close>
  with the gate \<open>3/4\<close>; the query mask keeps feature \<open>0\<close> with the gate \<open>3/4\<close>, and the
  mask of the key module keeps nothing.
\<close>

definition ident2 :: linear where
  "ident2 = \<lparr>in_features = 2, out_features = 2, weight = [[1, 0], [0, 1]], bias = None\<rparr>"

definition ex_norm0 :: layer_norm_with_compactor where
  "ex_norm0 = \<lparr>ln_weight = [1, 1], ln_bias = [0, 0],
     ln_mask = \<lparr>gates = [1, 0], threshold = 1/2\<rparr>,
     in_comp = ident2,
     out_comp = \<lparr>in_features = 2, out_features = 2, weight = [[1, 2], [3, 4]], bias = None\<rparr>\<rparr>"

definition ex_norm1 :: layer_norm_with_compactor where
  "ex_norm1 = \<lparr>ln_weight = [1, 1], ln_bias = [0, 0],
     ln_mask = \<lparr>gates = [1, 1], threshold = 1/2\<rparr>,
     in_comp = ident2, out_comp = ident2\<rparr>"

definition ex_norm2 :: layer_norm_with_compactor where
  "ex_norm2 = \<lparr>ln_weight = [1, 2], ln_bias = [0, 1],
     ln_mask = \<lparr>gates = [0, 3/4], threshold = 1/2\<rparr>,
     in_comp = ident2, out_comp = ident2\<rparr>"

definition ex_query :: linear_with_compactor_after where
  "ex_query = \<lparr>lca_base = \<lparr>in_features = 2, out_features = 2, weight = [[1, 1], [0, 1]], bias = None\<rparr>,
        lca_mask = \<lparr>gates = [3/4, 0], threshold = 1/2\<rparr>, lca_compactor = ident2\<rparr>"

definition ex_key :: linear_with_compactor_after where
  "ex_key = \<lparr>lca_base = \<lparr>in_features = 2, out_features = 2, weight = [[1, 0], [1, 1]], bias = None\<rparr>,
        lca_mask = \<lparr>gates = [0, 0], threshold = 1/2\<rparr>, lca_compactor = ident2\<rparr>"

definition ex_layer :: bert_layer where
  "ex_layer = \<lparr>
     attention_self_query = LinearWithCompactorAfter ex_query,
     attention_self_key = LinearWithCompactorAfter ex_key,
     attention_self_value = LinearWithCompactorAfter
       \<lparr>lca_base = ident2, lca_mask = \<lparr>gates = [1, 1], threshold = 1/2\<rparr>, lca_compactor = ident2\<rparr>,
     attention_output_dense = LinearWithCompactorBefore \<lparr>lcb_compactor = ident2, lcb_base = ident2\<rparr>,
     attention_output_LayerNorm = LayerNormWithCompactor ex_norm1,
     attention_output_residual = Absent,
     attention_output_mask = \<lparr>gates = [1], threshold = 1/2\<rparr>,
     intermediate_dense = Linear ident2,
     output_dense = LinearWithMaskBefore
       \<lparr>lmb_mask = \<lparr>gates = [1, 0], threshold = 1/2\<rparr>, lmb_base = ident2\<rparr>,
     output_LayerNorm = LayerNormWithCompactor ex_norm2,
     output_residual = Absent,
     output_mask = \<lparr>gates = [1], threshold = 1/2\<rparr>\<rparr>"

definition ex_model :: bert_model where
  "ex_model = \<lparr>num_attention_heads = 1,
     embeddings_LayerNorm = LayerNormWithCompactor ex_norm0,
     encoder_layer = [ex_layer],
     pooler_dense = Some (Linear ident2)\<rparr>"

text \<open>The layer that \<^verbatim>\<open>mix\<close> makes of \<open>ex_layer\<close> after \<open>ex_norm0\<close>.\<close>

definition ex_new_layer :: bert_layer where
  "ex_new_layer = \<lparr>
     attention_self_query =
       Linear \<lparr>in_features = 1, out_features = 1, weight = [[3]], bias = None\<rparr>,
     attention_self_key =
       Linear \<lparr>in_features = 1, out_features = 1, weight = [[1]], bias = None\<rparr>,
     attention_self_value =
       Linear \<lparr>in_features = 1, out_features = 2, weight = [[1], [3]], bias = None\<rparr>,
     attention_output_dense =
       Linear \<lparr>in_features = 2, out_features = 2, weight = [[1, 0], [0, 1]], bias = None\<rparr>,
     attention_output_LayerNorm =
       PackedLayerNorm \<lparr>pn_weight = [1, 1], pn_bias = [0, 0], packed_size = 2\<rparr>,
     attention_output_residual =
       Linear \<lparr>in_features = 1, out_features = 2, weight = [[1], [3]], bias = None\<rparr>,
     attention_output_mask = \<lparr>gates = [1], threshold = 1/2\<rparr>,
     intermediate_dense =
       Linear \<lparr>in_features = 2, out_features = 1, weight = [[1, 0]], bias = None\<rparr>,
     output_dense =
       Linear \<lparr>in_features = 1, out_features = 1, weight = [[0]], bias = None\<rparr>,
     output_LayerNorm =
       PackedLayerNorm \<lparr>pn_weight = [2], pn_bias = [1], packed_size = 1\<rparr>,
     output_residual =
       Linear \<lparr>in_features = 2, out_features = 1, weight = [[0, 3/4]], bias = None\<rparr>,
     output_mask = \<lparr>gates = [1], threshold = 1/2\<rparr>\<rparr>"

text \<open>
  A stand-in for \<^verbatim>\<open>state_dict\<close> and one for the factory, enough to run \<^verbatim>\<open>mix\<close>: the
  source dictionary has the weight of the pooler and the parameter of the mask of the first
  attention sub-block, which the packed model does not have; the packed model has the
  weight of the pooler and the weight of a task head, which the source does not have.
\<close>

definition weight_tensor :: "linear \<Rightarrow> tensor" where
  "weight_tensor l = \<lparr>shape = [out_features l, in_features l], data = concat (weight l)\<rparr>"

definition ex_state_dict_of :: "bert_model \<Rightarrow> state_dict" where
  "ex_state_dict_of m =
     (case pooler_dense m of
        Some (Linear l) \<Rightarrow> [(''bert.pooler.dense.weight'', weight_tensor l)]
      | _ \<Rightarrow> [])
     @ (case encoder_layer m of
          [] \<Rightarrow> []
        | l # _ \<Rightarrow>
            [(''bert.encoder.layer.0.attention.output.mask.log_alpha'',
              \<lparr>shape = [length (gates (attention_output_mask l))],
               data = gates (attention_output_mask l)\<rparr>)])"

definition ex_factory :: "packed_bert_config \<Rightarrow> state_dict" where
  "ex_factory cfg =
     (case rev (per_layer_config cfg) of
        [] \<Rightarrow> []
      | c # _ \<Rightarrow>
          [(''bert.pooler.dense.weight'',
            \<lparr>shape = [2, ffn_output_dim c], data = replicate (2 * ffn_output_dim c) 0\<rparr>)])
     @ [(''qa_outputs.weight'', \<lparr>shape = [2, 2], data = [0, 0, 0, 0]\<rparr>)]"

text \<open>What \<^verbatim>\<open>mix\<close> makes of \<open>ex_model\<close>: the model as it is left and the packed model.\<close>

definition ex_new_model :: bert_model where
  "ex_new_model = \<lparr>num_attention_heads = 1,
     embeddings_LayerNorm = Sequential
       [Linear \<lparr>in_features = 2, out_features = 1, weight = [[1, 0]], bias = None\<rparr>,
        PackedLayerNorm \<lparr>pn_weight = [1], pn_bias = [0], packed_size = 1\<rparr>],
     encoder_layer = [ex_new_layer],
     pooler_dense =
       Some (Linear \<lparr>in_features = 1, out_features = 2, weight = [[0], [1]], bias = None\<rparr>)\<rparr>"

definition ex_packed_model :: packed_model where
  "ex_packed_model = \<lparr>
     pm_config = \<lparr>p_num_attention_heads = 1,
       per_layer_config =
         [\<lparr>input_dim = 1, attn_output_dim = 2, ffn_output_dim = 1, num_heads = 1,
           qk_dim = 1, vo_dim = 2, ffn_dim = 1, prune_attn = False, prune_ffn = False\<rparr>]\<rparr>,
     pm_state_dict =
       [(''bert.pooler.dense.weight'', \<lparr>shape = [2, 1], data = [0, 1]\<rparr>),
        (''qa_outputs.weight'', \<lparr>shape = [2, 2], data = [0, 0, 0, 0]\<rparr>)]\<rparr>"

text \<open>
  The model \<open>ex_model\<close> with both sub-blocks of its layer pruned away: the masks of the
  whole attention sub-block and of the whole feed-forward sub-block keep nothing.
\<close>

definition ex_pruned_model :: bert_model where
  "ex_pruned_model = ex_model\<lparr>encoder_layer :=
     [ex_layer\<lparr>attention_output_mask := \<lparr>gates = [0], threshold = 1/2\<rparr>,
               output_mask := \<lparr>gates = [0], threshold = 1/2\<rparr>\<rparr>]\<rparr>"

definition ex_pruned_new_model :: bert_model where
  "ex_pruned_new_model = ex_new_model\<lparr>encoder_layer :=
     [ex_new_layer\<lparr>attention_output_mask := \<lparr>gates = [0], threshold = 1/2\<rparr>,
                   output_mask := \<lparr>gates = [0], threshold = 1/2\<rparr>\<rparr>]\<rparr>"

text \<open>The model \<open>ex_model\<close> with another mask on its key module, one that keeps both features.\<close>

definition ex_other_key_model :: bert_model where
  "ex_other_key_model = ex_model\<lparr>encoder_layer :=
     [ex_layer\<lparr>attention_self_key :=
        LinearWithCompactorAfter (ex_key\<lparr>lca_mask := \<lparr>gates = [1, 1], threshold = 1/2\<rparr>\<rparr>)\<rparr>]\<rparr>"

section \<open>Matrix algebra on lists\<close>

lemma length_matvec [simp]: "length (matvec W x) = length W"
  by (simp add: matvec_def)

lemma nth_matvec [simp]: "i < length W \<Longrightarrow> matvec W x ! i = dot (W ! i) x"
  by (simp add: matvec_def)

lemma length_matmul [simp]: "length (matmul B A n) = length B"
  by (simp add: matmul_def)

lemma length_matmul_row [simp]: "i < length B \<Longrightarrow> length (matmul B A n ! i) = n"
  by (simp add: matmul_def)

lemma nth_matmul [simp]:
  "i < length B \<Longrightarrow> j < n \<Longrightarrow> matmul B A n ! i ! j = (\<Sum>k<length (B ! i). B ! i ! k * A ! k ! j)"
  by (simp add: matmul_def)

lemma length_vadd [simp]: "length (vadd u v) = length u"
  by (simp add: vadd_def)

lemma nth_vadd [simp]: "k < length u \<Longrightarrow> vadd u v ! k = u ! k + v ! k"
  by (simp add: vadd_def)

lemma vadd_zero: "length v = n \<Longrightarrow> vadd (replicate n 0) v = v"
  by (rule nth_equalityI) simp_all


lemma dot_matmul_row:
  assumes "i < length B" and "length (B ! i) = m" and "length x = n"
  shows "dot (matmul B A n ! i) x = (\<Sum>k<m. B ! i ! k * (\<Sum>j<n. A ! k ! j * x ! j))"
proof -
  have "dot (matmul B A n ! i) x = (\<Sum>j<n. (\<Sum>k<m. B ! i ! k * A ! k ! j) * x ! j)"
    using assms by (simp add: dot_def)
  also have "\<dots> = (\<Sum>j<n. \<Sum>k<m. B ! i ! k * (A ! k ! j * x ! j))"
    by (simp add: sum_distrib_right mult.assoc)
  also have "\<dots> = (\<Sum>k<m. \<Sum>j<n. B ! i ! k * (A ! k ! j * x ! j))"
    by (rule sum.swap)
  also have "\<dots> = (\<Sum>k<m. B ! i ! k * (\<Sum>j<n. A ! k ! j * x ! j))"
    by (simp add: sum_distrib_left)
  finally show ?thesis .
qed

lemma matvec_matmul:
  assumes B: "list_all (\<lambda>r. length r = length A) B"
    and A: "list_all (\<lambda>r. length r = n) A"
    and x: "length x = n"
  shows "matvec (matmul B A n) x = matvec B (matvec A x)"
proof (rule nth_equalityI)
  show "length (matvec (matmul B A n) x) = length (matvec B (matvec A x))" by simp
next
  fix i assume "i < length (matvec (matmul B A n) x)"
  then have i: "i < length B" by simp
  then have len: "length (B ! i) = length A"
    using B by (simp add: list_all_length)
  have "dot (matmul B A n ! i) x = (\<Sum>k<length A. B ! i ! k * (\<Sum>j<n. A ! k ! j * x ! j))"
    using i len x by (rule dot_matmul_row)
  also have "\<dots> = (\<Sum>k<length A. B ! i ! k * matvec A x ! k)"
    using A by (intro sum.cong refl) (simp add: dot_def list_all_length)
  also have "\<dots> = dot (B ! i) (matvec A x)"
    by (simp add: dot_def len)
  finally show "matvec (matmul B A n) x ! i = matvec B (matvec A x) ! i"
    using i by simp
qed

lemma dot_vadd:
  "length u = length r \<Longrightarrow> dot r (vadd u v) = dot r u + dot r v"
  by (simp add: dot_def distrib_left sum.distrib)

lemma matvec_vadd:
  assumes "list_all (\<lambda>r. length r = length u) W"
  shows "matvec W (vadd u v) = vadd (matvec W u) (matvec W v)"
  using assms by (intro nth_equalityI) (simp_all add: list_all_length dot_vadd)

lemma matmul_assoc:
  assumes C: "list_all (\<lambda>r. length r = length B) C"
    and B: "list_all (\<lambda>r. length r = m) B"
  shows "matmul C (matmul B A n) n = matmul (matmul C B m) A n"
proof (rule nth_equalityI)
  show "length (matmul C (matmul B A n) n) = length (matmul (matmul C B m) A n)" by simp
next
  fix i assume "i < length (matmul C (matmul B A n) n)"
  then have i: "i < length C" by simp
  then have len: "length (C ! i) = length B"
    using C by (simp add: list_all_length)
  show "matmul C (matmul B A n) n ! i = matmul (matmul C B m) A n ! i"
  proof (rule nth_equalityI)
    show "length (matmul C (matmul B A n) n ! i) = length (matmul (matmul C B m) A n ! i)"
      using i by simp
  next
    fix j assume "j < length (matmul C (matmul B A n) n ! i)"
    then have j: "j < n" using i by simp
    have "matmul C (matmul B A n) n ! i ! j =
        (\<Sum>k<length B. C ! i ! k * (\<Sum>l<m. B ! k ! l * A ! l ! j))"
      using i j len B by (simp add: list_all_length)
    also have "\<dots> = (\<Sum>k<length B. \<Sum>l<m. C ! i ! k * B ! k ! l * A ! l ! j)"
      by (simp add: sum_distrib_left mult.assoc)
    also have "\<dots> = (\<Sum>l<m. \<Sum>k<length B. C ! i ! k * B ! k ! l * A ! l ! j)"
      by (rule sum.swap)
    also have "\<dots> = (\<Sum>l<m. (\<Sum>k<length B. C ! i ! k * B ! k ! l) * A ! l ! j)"
      by (simp add: sum_distrib_right)
    also have "\<dots> = matmul (matmul C B m) A n ! i ! j"
      using i j len by simp
    finally show "matmul C (matmul B A n) n ! i ! j = matmul (matmul C B m) A n ! i ! j" .
  qed
qed


lemma vadd_assoc: "length v = length u \<Longrightarrow> vadd (vadd u v) w = vadd u (vadd v w)"
  by (rule nth_equalityI) simp_all

lemma list_all_matmul_row: "list_all (\<lambda>r. length r = n) (matmul B A n)"
  by (simp add: list_all_length)

lemma merge_None1:
  "in_features B = out_features A \<Longrightarrow> bias A = None \<Longrightarrow>
   merge A B = Inr \<lparr>in_features = in_features A, out_features = out_features B,
                    weight = matmul (weight B) (weight A) (in_features A), bias = None\<rparr>"
  by (simp add: merge_def Let_def)

lemma merge_None2:
  "in_features B = out_features A \<Longrightarrow> bias B = None \<Longrightarrow>
   merge A B = Inr \<lparr>in_features = in_features A, out_features = out_features B,
                    weight = matmul (weight B) (weight A) (in_features A), bias = None\<rparr>"
  by (simp add: merge_def Let_def)

lemma merge_Some:
  "in_features B = out_features A \<Longrightarrow> length (weight B) = out_features B \<Longrightarrow>
   bias A = Some a \<Longrightarrow> bias B = Some b \<Longrightarrow>
   merge A B = Inr \<lparr>in_features = in_features A, out_features = out_features B,
                    weight = matmul (weight B) (weight A) (in_features A),
                    bias = Some (vadd (matvec (weight B) a) b)\<rparr>"
  by (simp add: merge_def Let_def vadd_zero)

lemma wf_merge:
  assumes "wf_linear B" and "merge A B = Inr M"
  shows "wf_linear M"
  using assms
  by (auto simp: merge_def Let_def wf_linear_def list_all_matmul_row
      split: if_splits option.splits)

lemma merge_shape:
  assumes "merge A B = Inr M"
  shows "in_features M = in_features A \<and> out_features M = out_features B
         \<and> weight M = matmul (weight B) (weight A) (in_features A)
         \<and> (bias M \<noteq> None \<longleftrightarrow> bias A \<noteq> None \<and> bias B \<noteq> None)"
  using assms by (auto simp: merge_def Let_def split: if_splits)

lemma merge_merge_eq:
  assumes wf: "wf_linear A" "wf_linear B" "wf_linear C"
    and AB: "out_features A = in_features B" and BC: "out_features B = in_features C"
  shows "\<exists>L. bind (merge A B) (\<lambda>AB. merge AB C) = Inr L
           \<and> bind (merge B C) (\<lambda>BC. merge A BC) = Inr L"
proof -
  have W: "matmul (weight C) (matmul (weight B) (weight A) (in_features A)) (in_features A)
         = matmul (matmul (weight C) (weight B) (in_features B)) (weight A) (in_features A)"
    using wf BC by (intro matmul_assoc) (simp_all add: wf_linear_def)
  show ?thesis
  proof (cases "bias A")
    case None
    then show ?thesis using AB BC W
      by (cases "bias B"; cases "bias C")
         (auto simp: bind_def merge_def Let_def)
  next
    case a: (Some a)
    show ?thesis
    proof (cases "bias B")
      case None
      then show ?thesis using AB BC W
        by (cases "bias C") (auto simp: bind_def merge_def Let_def)
    next
      case b: (Some b)
      show ?thesis
      proof (cases "bias C")
        case None
        then show ?thesis using AB BC W
          by (auto simp: bind_def merge_def Let_def)
      next
        case c: (Some c)
        have lenB: "length (weight B) = out_features B" and lenC: "length (weight C) = out_features C"
          and lenb: "length b = out_features B" and lena: "length a = out_features A"
          and rowsB: "list_all (\<lambda>r. length r = in_features B) (weight B)"
          and rowsC: "list_all (\<lambda>r. length r = in_features C) (weight C)"
          using wf a b c by (simp_all add: wf_linear_def)
        have 1: "merge A B = Inr \<lparr>in_features = in_features A, out_features = out_features B,
                    weight = matmul (weight B) (weight A) (in_features A),
                    bias = Some (vadd (matvec (weight B) a) b)\<rparr>"
          using AB lenB a b by (simp add: merge_Some)
        have 2: "merge B C = Inr \<lparr>in_features = in_features B, out_features = out_features C,
                    weight = matmul (weight C) (weight B) (in_features B),
                    bias = Some (vadd (matvec (weight C) b) c)\<rparr>"
          using BC lenC b c by (simp add: merge_Some)
        have "matvec (weight C) (vadd (matvec (weight B) a) b)
              = vadd (matvec (weight C) (matvec (weight B) a)) (matvec (weight C) b)"
          using rowsC BC lenB by (intro matvec_vadd) simp
        moreover have "matvec (matmul (weight C) (weight B) (in_features B)) a
              = matvec (weight C) (matvec (weight B) a)"
          using rowsC rowsB BC lenB lena AB by (intro matvec_matmul) simp_all
        ultimately have bias_eq:
          "vadd (matvec (weight C) (vadd (matvec (weight B) a) b)) c
           = vadd (matvec (matmul (weight C) (weight B) (in_features B)) a)
                  (vadd (matvec (weight C) b) c)"
          by (simp add: vadd_assoc)
        show ?thesis
          unfolding 1 2 bind_def
          using AB BC lenC a c W bias_eq by (simp add: merge_Some)
      qed
    qed
  qed
qed

lemma forward_merge:
  assumes wf: "wf_linear A" "wf_linear B"
    and AB: "out_features A = in_features B"
    and x: "length x = in_features A"
    and bias: "bias A = None \<longleftrightarrow> bias B = None"
    and M: "merge A B = Inr M"
  shows "forward M x = bind (forward A x) (forward B)"
proof -
  have lenA: "length (weight A) = out_features A" and lenB: "length (weight B) = out_features B"
    and rowsA: "list_all (\<lambda>r. length r = in_features A) (weight A)"
    and rowsB: "list_all (\<lambda>r. length r = in_features B) (weight B)"
    using wf by (simp_all add: wf_linear_def)
  have mm: "matvec (matmul (weight B) (weight A) (in_features A)) x
          = matvec (weight B) (matvec (weight A) x)"
    using rowsA rowsB AB lenA x by (intro matvec_matmul) simp_all
  show ?thesis
  proof (cases "bias A")
    case None
    then have "bias B = None" using bias by simp
    then show ?thesis using None M AB x lenA mm
      by (auto simp: merge_None1 forward_def bind_def)
  next
    case (Some a)
    then obtain b where b: "bias B = Some b" using bias by auto
    have lena: "length a = out_features A" using wf Some by (simp add: wf_linear_def)
    have "matvec (weight B) (vadd (matvec (weight A) x) a)
          = vadd (matvec (weight B) (matvec (weight A) x)) (matvec (weight B) a)"
      using rowsB AB lenA by (intro matvec_vadd) simp
    then show ?thesis using Some b M AB x lenA lenB mm
      by (auto simp: merge_Some forward_def bind_def vadd_assoc)
  qed
qed

section \<open>Row selection\<close>

lemma pos_less: "valid_index n i \<Longrightarrow> pos n i < n"
  by (auto simp: valid_index_def pos_def)

lemma take_rows_vadd:
  assumes "length v = length u" and "list_all (valid_index (length u)) indices"
  shows "take_rows (vadd u v) indices = vadd (take_rows u indices) (take_rows v indices)"
proof (rule nth_equalityI)
  show "length (take_rows (vadd u v) indices)
        = length (vadd (take_rows u indices) (take_rows v indices))"
    by (simp add: take_rows_def)
next
  fix k assume "k < length (take_rows (vadd u v) indices)"
  then have k: "k < length indices" by (simp add: take_rows_def)
  then have "pos (length u) (indices ! k) < length u"
    using assms(2) by (simp add: list_all_length pos_less)
  then show "take_rows (vadd u v) indices ! k
        = vadd (take_rows u indices) (take_rows v indices) ! k"
    using k assms(1) by (simp add: take_rows_def)
qed

lemma take_rows_matvec:
  assumes "list_all (valid_index (length W)) indices"
  shows "take_rows (matvec W x) indices = matvec (take_rows W indices) x"
proof (rule nth_equalityI)
  show "length (take_rows (matvec W x) indices) = length (matvec (take_rows W indices) x)"
    by (simp add: take_rows_def)
next
  fix k assume "k < length (take_rows (matvec W x) indices)"
  then have k: "k < length indices" by (simp add: take_rows_def)
  then have "pos (length W) (indices ! k) < length W"
    using assms by (simp add: list_all_length pos_less)
  then show "take_rows (matvec W x) indices ! k = matvec (take_rows W indices) x ! k"
    using k by (simp add: take_rows_def)
qed

lemma forward_merge_mask:
  assumes wf: "wf_linear A"
    and idx: "list_all (valid_index (out_features A)) indices"
    and x: "length x = in_features A"
  shows "\<exists>M y. merge_mask A indices = Inr M \<and> forward A x = Inr y
               \<and> forward M x = Inr (take_rows y indices)"
proof -
  have lenA: "length (weight A) = out_features A" using wf by (simp add: wf_linear_def)
  have rows: "take_rows (matvec (weight A) x) indices = matvec (take_rows (weight A) indices) x"
    using idx lenA by (intro take_rows_matvec) simp
  show ?thesis
  proof (cases "bias A")
    case None
    then show ?thesis using lenA idx x rows
      by (simp add: merge_mask_def forward_def)
  next
    case (Some b)
    then have lenb: "length b = out_features A" using wf by (simp add: wf_linear_def)
    have "take_rows (vadd (matvec (weight A) x) b) indices
          = vadd (take_rows (matvec (weight A) x) indices) (take_rows b indices)"
      using idx lenA lenb by (intro take_rows_vadd) simp_all
    then show ?thesis using Some lenA lenb idx x rows
      by (simp add: merge_mask_def forward_def)
  qed
qed

lemma matmul_selection:
  assumes idx: "list_all (valid_index (length W)) indices"
    and rows: "list_all (\<lambda>r. length r = n) W"
  shows "matmul (weight (SelectionMatrix (length W) indices)) W n = take_rows W indices"
proof (rule nth_equalityI)
  show "length (matmul (weight (SelectionMatrix (length W) indices)) W n)
        = length (take_rows W indices)"
    by (simp add: SelectionMatrix_def take_rows_def)
next
  fix k assume "k < length (matmul (weight (SelectionMatrix (length W) indices)) W n)"
  then have k: "k < length indices" by (simp add: SelectionMatrix_def)
  define p where "p = pos (length W) (indices ! k)"
  have p: "p < length W"
    using idx k by (simp add: p_def list_all_length pos_less)
  then have lenp: "length (W ! p) = n" using rows by (simp add: list_all_length)
  show "matmul (weight (SelectionMatrix (length W) indices)) W n ! k = take_rows W indices ! k"
  proof (rule nth_equalityI)
    show "length (matmul (weight (SelectionMatrix (length W) indices)) W n ! k)
          = length (take_rows W indices ! k)"
      using k lenp by (simp add: SelectionMatrix_def take_rows_def p_def)
  next
    fix j assume "j < length (matmul (weight (SelectionMatrix (length W) indices)) W n ! k)"
    then have j: "j < n" using k by (simp add: SelectionMatrix_def)
    have "matmul (weight (SelectionMatrix (length W) indices)) W n ! k ! j
          = (\<Sum>l<length W. (if l = p then W ! l ! j else 0))"
      using k j by (simp add: SelectionMatrix_def p_def if_distrib[of "\<lambda>c. c * _"] cong: if_cong)
    also have "\<dots> = W ! p ! j" using p by simp
    finally show "matmul (weight (SelectionMatrix (length W) indices)) W n ! k ! j
          = take_rows W indices ! k ! j"
      using k by (simp add: take_rows_def p_def)
  qed
qed

lemma merge_selection_no_bias:
  assumes wf: "wf_linear A" and nb: "bias A = None"
    and idx: "list_all (valid_index (out_features A)) indices"
  shows "merge A (SelectionMatrix (out_features A) indices) = merge_mask A indices"
proof -
  have lenA: "length (weight A) = out_features A"
    and rows: "list_all (\<lambda>r. length r = in_features A) (weight A)"
    using wf by (simp_all add: wf_linear_def)
  have "matmul (weight (SelectionMatrix (length (weight A)) indices)) (weight A) (in_features A)
        = take_rows (weight A) indices"
    using idx rows lenA by (intro matmul_selection) simp_all
  moreover have "merge A (SelectionMatrix (out_features A) indices)
        = Inr \<lparr>in_features = in_features A, out_features = length indices,
               weight = matmul (weight (SelectionMatrix (out_features A) indices)) (weight A)
                         (in_features A),
               bias = None\<rparr>"
    using nb merge_None1 [of "SelectionMatrix (out_features A) indices" A]
    by (simp add: SelectionMatrix_def)
  ultimately show ?thesis using nb idx lenA
    by (simp add: merge_mask_def)
qed

section \<open>The fusion primitive: claims\<close>

text \<open>
  C1. The claim: for all affine transforms \<open>A\<close> and \<open>B\<close> of matching widths, each with
  an optional bias, \<open>merge(A, B)\<close> applied to \<open>x\<close> is \<open>B(A(x))\<close>, and the result carries a
  bias whenever either operand has one. Lemma \<open>forward_merge\<close> proves the equation when
  both operands have a bias or neither has. The code gives the new module a bias only when
  both operands have one, although it has computed the contribution of each bias that is
  present. On \<open>ex_A\<close> (with bias \<open>[1, 1]\<close>) and \<open>ex_B\<close> (without bias) the merged
  transform has no bias and maps \<open>[0, 0]\<close> to \<open>[0]\<close>, while \<open>ex_B(ex_A([0, 0]))\<close> is
  \<open>[2]\<close>.
\<close>

theorem merge_drops_single_bias:
  "merge ex_A ex_B = Inr \<lparr>in_features = 2, out_features = 1, weight = [[4, 6]], bias = None\<rparr>
   \<and> bind (merge ex_A ex_B) (\<lambda>m. forward m [0, 0]) = Inr [0]
   \<and> bind (forward ex_A [0, 0]) (forward ex_B) = Inr [2]"
  by code_simp

text \<open>
  C2. The claim: \<open>merge_mask(A, idx)\<close> applied to \<open>x\<close> selects the entries at \<open>idx\<close> from
  \<open>A(x)\<close>, and \<open>merge_mask(A, idx)\<close> is the transform \<open>merge(A, SelectionMatrix(idx))\<close>.
  The first half is lemma \<open>forward_merge_mask\<close>, and lemma \<open>merge_selection_no_bias\<close>
  proves the second half for every \<open>A\<close> without a bias. For an \<open>A\<close> with a bias the second
  half fails in the code: \<open>merge_mask\<close> keeps the selected bias entries, while \<open>merge\<close>
  drops the bias of \<open>A\<close> because the selection matrix has none. On \<open>ex_A\<close> and the index
  list \<open>[1]\<close> the two transforms differ in their bias and in their value at \<open>[0, 0]\<close>.
\<close>

theorem merge_mask_differs_from_selection_merge:
  "merge_mask ex_A [1] = Inr \<lparr>in_features = 2, out_features = 1, weight = [[3, 4]], bias = Some [1]\<rparr>
   \<and> merge ex_A (SelectionMatrix 2 [1])
       = Inr \<lparr>in_features = 2, out_features = 1, weight = [[3, 4]], bias = None\<rparr>
   \<and> bind (merge_mask ex_A [1]) (\<lambda>m. forward m [0, 0]) = Inr [1]
   \<and> bind (merge ex_A (SelectionMatrix 2 [1])) (\<lambda>m. forward m [0, 0]) = Inr [0]"
  by code_simp

text \<open>
  C3. Fusion is associative: for transforms \<open>A\<close>, \<open>B\<close>, \<open>C\<close> of compatible widths, each
  with an optional bias, and every input \<open>x\<close> of the width of \<open>A\<close>, both
  \<open>merge(merge(A, B), C)\<close> and \<open>merge(A, merge(B, C))\<close> are built without error, they give
  the same output on \<open>x\<close>, and one has a bias exactly when the other has.
\<close>

theorem merge_associative:
  assumes "wf_linear A" and "wf_linear B" and "wf_linear C"
    and "out_features A = in_features B" and "out_features B = in_features C"
    and "length x = in_features A"
  shows "\<exists>L R y. bind (merge A B) (\<lambda>AB. merge AB C) = Inr L
           \<and> bind (merge B C) (\<lambda>BC. merge A BC) = Inr R
           \<and> forward L x = Inr y \<and> forward R x = Inr y
           \<and> (bias L = None \<longleftrightarrow> bias R = None)"
proof -
  from merge_merge_eq [OF assms(1-5)] obtain L where
    L: "bind (merge A B) (\<lambda>AB. merge AB C) = Inr L"
    and R: "bind (merge B C) (\<lambda>BC. merge A BC) = Inr L" by blast
  from R obtain BC where "merge B C = Inr BC" and "merge A BC = Inr L"
    by (auto simp: bind_def split: sum.splits)
  then have "in_features L = in_features A" by (simp add: merge_shape)
  then obtain y where "forward L x = Inr y"
    using assms(6) by (simp add: forward_def)
  with L R show ?thesis by blast
qed

text \<open>The associativity theorem at \<open>ex_A\<close>, \<open>ex_B\<close>, \<open>ex_C\<close> and the input \<open>[1, 1]\<close>.\<close>

theorem merge_associative_witness:
  "wf_linear ex_A \<and> wf_linear ex_B \<and> wf_linear ex_C
   \<and> out_features ex_A = in_features ex_B \<and> out_features ex_B = in_features ex_C
   \<and> length [1, 1 :: rat] = in_features ex_A
   \<and> (\<exists>L R y. bind (merge ex_A ex_B) (\<lambda>AB. merge AB ex_C) = Inr L
           \<and> bind (merge ex_B ex_C) (\<lambda>BC. merge ex_A BC) = Inr R
           \<and> forward L [1, 1] = Inr y \<and> forward R [1, 1] = Inr y
           \<and> (bias L = None \<longleftrightarrow> bias R = None))"
proof -
  have h: "wf_linear ex_A" "wf_linear ex_B" "wf_linear ex_C"
    "out_features ex_A = in_features ex_B" "out_features ex_B = in_features ex_C"
    "length [1, 1 :: rat] = in_features ex_A"
    by (simp_all add: wf_linear_def ex_A_def ex_B_def ex_C_def)
  from merge_associative [OF h] h show ?thesis by simp
qed

section \<open>Compaction of one layer\<close>

lemma bind_eq_Inr: "bind m f = Inr y \<longleftrightarrow> (\<exists>x. m = Inr x \<and> f x = Inr y)"
  by (cases m) (simp_all add: bind_def)

lemma mix_layer_InrE:
  assumes "mix_layer past_layer_norm layer = Inr (new_layer, cursor)"
  obtains norm0 norm1 norm2 q k v ob w2m w1l new_norm1 new_norm2 norm0_out_comp norm1_in_comp
    q1 qc query k1 kc key v1 vc val oc o1 outp norm1_out_comp norm2_in_comp
    w1a w1 w2a w2 residual1 residual2
  where "the_norm past_layer_norm = Inr norm0"
    and "the_norm (attention_output_LayerNorm layer) = Inr norm1"
    and "the_norm (output_LayerNorm layer) = Inr norm2"
    and "the_compactor_after (attention_self_query layer) = Inr q"
    and "the_compactor_after (attention_self_value layer) = Inr v"
    and "the_mask_before (output_dense layer) = Inr w2m"
    and "layer_norm_extract norm1 (snd (parse (ln_mask norm1))) = Inr new_norm1"
    and "layer_norm_extract norm2 (snd (parse (ln_mask norm2))) = Inr new_norm2"
    and "compactor_extract (out_comp norm0) Input (snd (parse (ln_mask norm0)))
           (Some (fst (parse (ln_mask norm0)))) = Inr norm0_out_comp"
    and "compactor_extract (in_comp norm1) Output (snd (parse (ln_mask norm1)))
           (Some (fst (parse (ln_mask norm1)))) = Inr norm1_in_comp"
    and "merge norm0_out_comp (lca_base q) = Inr q1"
    and "compactor_extract (lca_compactor q) Output (snd (parse (lca_mask q)))
           (Some (fst (parse (lca_mask q)))) = Inr qc"
    and "merge q1 qc = Inr query"
    and "the_compactor_after (attention_self_key layer) = Inr k"
    and "merge norm0_out_comp (lca_base k) = Inr k1"
    and "compactor_extract (lca_compactor k) Output (snd (parse (lca_mask q))) None = Inr kc"
    and "merge k1 kc = Inr key"
    and "merge norm0_out_comp (lca_base v) = Inr v1"
    and "compactor_extract (lca_compactor v) Output (snd (parse (lca_mask v)))
           (Some (fst (parse (lca_mask v)))) = Inr vc"
    and "merge v1 vc = Inr val"
    and "the_compactor_before (attention_output_dense layer) = Inr ob"
    and "compactor_extract (lcb_compactor ob) Input (snd (parse (lca_mask v))) None = Inr oc"
    and "merge oc (lcb_base ob) = Inr o1"
    and "merge o1 norm1_in_comp = Inr outp"
    and "compactor_extract (out_comp norm1) Input (snd (parse (ln_mask norm1)))
           (Some (fst (parse (ln_mask norm1)))) = Inr norm1_out_comp"
    and "compactor_extract (in_comp norm2) Output (snd (parse (ln_mask norm2)))
           (Some (fst (parse (ln_mask norm2)))) = Inr norm2_in_comp"
    and "the_linear (intermediate_dense layer) = Inr w1l"
    and "merge norm1_out_comp w1l = Inr w1a"
    and "merge_mask w1a (snd (parse (lmb_mask w2m))) = Inr w1"
    and "mask_before_extract w2m (snd (parse (lmb_mask w2m))) (fst (parse (lmb_mask w2m)))
           = Inr w2a"
    and "merge w2a norm2_in_comp = Inr w2"
    and "merge norm0_out_comp norm1_in_comp = Inr residual1"
    and "merge norm1_out_comp norm2_in_comp = Inr residual2"
    and "layer\<lparr>attention_output_LayerNorm := PackedLayerNorm new_norm1,
                   output_LayerNorm := PackedLayerNorm new_norm2,
                   attention_self_query := Linear query,
                   attention_self_key := Linear key,
                   attention_self_value := Linear val,
                   attention_output_dense := Linear outp,
                   intermediate_dense := Linear w1,
                   output_dense := Linear w2,
                   attention_output_residual := Linear residual1,
                   output_residual := Linear residual2\<rparr> = new_layer"
    and "output_LayerNorm layer = cursor"
  using assms unfolding mix_layer_def Let_def case_prod_beta bind_eq_Inr sum.inject prod.inject
  by (elim exE conjE) (rule that; assumption)


lemma merge_mask_shape:
  assumes "merge_mask c indices = Inr l"
  shows "in_features l = in_features c" and "out_features l = length indices"
    and "length (weight l) = length indices"
    and "\<And>b. bias l = Some b \<Longrightarrow> length b = length indices"
  using assms
  by (auto simp: merge_mask_def Let_def take_rows_def split: if_splits option.splits)

lemma compactor_extract_Output_Some:
  assumes "compactor_extract c Output indices (Some v) = Inr qc"
  shows "\<exists>qn. compactor_extract c Output indices None = Inr qn \<and> length v = length indices
           \<and> qc = qn\<lparr>weight := scale_rows v (weight qn), bias := map_option (vmul v) (bias qn)\<rparr>"
  using assms by (auto simp: compactor_extract_def bind_eq_Inr split: if_splits)

lemma compactor_extract_Output_shape:
  assumes "compactor_extract c Output indices vals = Inr l"
  shows "out_features l = length indices" and "in_features l = in_features c"
  using assms
  by (auto simp: compactor_extract_def bind_eq_Inr merge_mask_shape
      split: if_splits option.splits)

lemma compactor_extract_Input_shape:
  assumes "compactor_extract c Input indices vals = Inr l"
  shows "in_features l = length indices" and "out_features l = out_features c"
  using assms by (auto simp: compactor_extract_def split: if_splits)

lemma length_scale_rows [simp]: "length (scale_rows v W) = length W"
  by (simp add: scale_rows_def)

lemma nth_scale_rows [simp]:
  "i < length W \<Longrightarrow> scale_rows v W ! i = map (\<lambda>a. v ! i * a) (W ! i)"
  by (simp add: scale_rows_def)

lemma length_vmul [simp]: "length (vmul v b) = length b"
  by (simp add: vmul_def)

lemma nth_vmul [simp]: "k < length b \<Longrightarrow> vmul v b ! k = v ! k * b ! k"
  by (simp add: vmul_def)

lemma dot_scale: "dot (map (\<lambda>a. c * a) r) x = c * dot r x"
  by (simp add: dot_def sum_distrib_left mult.assoc)

lemma matmul_scale_rows: "matmul (scale_rows v W) A n = scale_rows v (matmul W A n)"
proof (rule nth_equalityI)
  show "length (matmul (scale_rows v W) A n) = length (scale_rows v (matmul W A n))" by simp
next
  fix i assume "i < length (matmul (scale_rows v W) A n)"
  then have i: "i < length W" by simp
  show "matmul (scale_rows v W) A n ! i = scale_rows v (matmul W A n) ! i"
  proof (rule nth_equalityI)
    show "length (matmul (scale_rows v W) A n ! i) = length (scale_rows v (matmul W A n) ! i)"
      using i by simp
  next
    fix j assume "j < length (matmul (scale_rows v W) A n ! i)"
    then have j: "j < n" using i by simp
    then show "matmul (scale_rows v W) A n ! i ! j = scale_rows v (matmul W A n) ! i ! j"
      using i by (simp add: sum_distrib_left mult.assoc)
  qed
qed

lemma matvec_scale_rows: "matvec (scale_rows v W) x = vmul v (matvec W x)"
  by (rule nth_equalityI) (simp_all add: dot_scale)

lemma vadd_vmul:
  "length w = length u \<Longrightarrow> vadd (vmul v u) (vmul v w) = vmul v (vadd u w)"
  by (rule nth_equalityI) (simp_all add: distrib_left)

lemma merge_scaled:
  assumes M: "merge A (B\<lparr>weight := scale_rows v (weight B),
                         bias := map_option (vmul v) (bias B)\<rparr>) = Inr M"
    and len: "length (weight B) = out_features B"
    and lenb: "\<And>b. bias B = Some b \<Longrightarrow> length b = out_features B"
  shows "\<exists>M0. merge A B = Inr M0 \<and> in_features M = in_features M0
           \<and> out_features M = out_features M0
           \<and> weight M = scale_rows v (weight M0)
           \<and> bias M = map_option (vmul v) (bias M0)"
proof -
  have dims: "in_features B = out_features A"
    using M by (auto simp: merge_def Let_def split: if_splits)
  show ?thesis
  proof (cases "bias A")
    case None
    then show ?thesis using M dims
      by (auto simp: merge_None1 matmul_scale_rows)
  next
    case a: (Some a)
    show ?thesis
    proof (cases "bias B")
      case None
      then show ?thesis using M dims
        by (auto simp: merge_None2 matmul_scale_rows)
    next
      case b: (Some b)
      have "vadd (matvec (scale_rows v (weight B)) a) (vmul v b)
            = vmul v (vadd (matvec (weight B) a) b)"
        using len lenb [OF b] by (simp add: matvec_scale_rows vadd_vmul)
      then show ?thesis using M dims a b len
        by (auto simp: merge_Some matmul_scale_rows)
    qed
  qed
qed

lemma compactor_extract_Output_None:
  "compactor_extract c Output indices None = merge_mask c indices"
  by (cases "merge_mask c indices") (simp_all add: compactor_extract_def bind_def)

section \<open>Compaction of the model\<close>

lemma the_norm_Inr [simp]: "the_norm m = Inr n \<longleftrightarrow> m = LayerNormWithCompactor n"
  by (cases m) simp_all

lemma the_packed_norm_Inr [simp]: "the_packed_norm m = Inr n \<longleftrightarrow> m = PackedLayerNorm n"
  by (cases m) simp_all

lemma the_linear_Inr [simp]: "the_linear m = Inr l \<longleftrightarrow> m = Linear l"
  by (cases m) simp_all

lemma the_compactor_after_Inr [simp]:
  "the_compactor_after m = Inr w \<longleftrightarrow> m = LinearWithCompactorAfter w"
  by (cases m) simp_all

lemma the_compactor_before_Inr [simp]:
  "the_compactor_before m = Inr w \<longleftrightarrow> m = LinearWithCompactorBefore w"
  by (cases m) simp_all

lemma the_mask_before_Inr [simp]:
  "the_mask_before m = Inr w \<longleftrightarrow> m = LinearWithMaskBefore w"
  by (cases m) simp_all

lemma layer_norm_extract_size:
  "layer_norm_extract n indices = Inr p \<Longrightarrow> packed_size p = length indices"
  by (auto simp: layer_norm_extract_def split: if_splits)

lemma mix_layer_config:
  assumes mix: "mix_layer p l = Inr (l', cur)"
    and p: "p = LayerNormWithCompactor n0"
    and pp: "pp = PackedLayerNorm pn0"
    and size: "packed_size pn0 = kept_count (ln_mask n0)"
  shows "\<exists>c n2 pn2.
           layer_configs h pp (l' # rest)
             = bind (layer_configs h (PackedLayerNorm pn2) rest) (\<lambda>r. Inr (c # r))
         \<and> widths_account p l c \<and> \<not> prune_attn c \<and> \<not> prune_ffn c
         \<and> cur = LayerNormWithCompactor n2 \<and> cur = output_LayerNorm l
         \<and> packed_size pn2 = kept_count (ln_mask n2)"
  using mix
proof (rule mix_layer_InrE)
  fix norm0 norm1 norm2 q k v ob w2m w1l new_norm1 new_norm2 norm0_out_comp norm1_in_comp
    q1 qc query k1 kc key v1 vc val oc o1 outp norm1_out_comp norm2_in_comp
    w1a w1 w2a w2 residual1 residual2
  assume slots: "the_norm p = Inr norm0"
    "the_norm (attention_output_LayerNorm l) = Inr norm1"
    "the_norm (output_LayerNorm l) = Inr norm2"
    "the_compactor_after (attention_self_query l) = Inr q"
    "the_compactor_after (attention_self_value l) = Inr v"
    "the_mask_before (output_dense l) = Inr w2m"
  assume norms: "layer_norm_extract norm1 (snd (parse (ln_mask norm1))) = Inr new_norm1"
    "layer_norm_extract norm2 (snd (parse (ln_mask norm2))) = Inr new_norm2"
  assume qs: "compactor_extract (lca_compactor q) Output (snd (parse (lca_mask q)))
           (Some (fst (parse (lca_mask q)))) = Inr qc" "merge q1 qc = Inr query"
  assume vs: "compactor_extract (lca_compactor v) Output (snd (parse (lca_mask v)))
           (Some (fst (parse (lca_mask v)))) = Inr vc" "merge v1 vc = Inr val"
  assume ws: "merge_mask w1a (snd (parse (lmb_mask w2m))) = Inr w1"
  assume new: "l\<lparr>attention_output_LayerNorm := PackedLayerNorm new_norm1,
                   output_LayerNorm := PackedLayerNorm new_norm2,
                   attention_self_query := Linear query,
                   attention_self_key := Linear key,
                   attention_self_value := Linear val,
                   attention_output_dense := Linear outp,
                   intermediate_dense := Linear w1,
                   output_dense := Linear w2,
                   attention_output_residual := Linear residual1,
                   output_residual := Linear residual2\<rparr> = l'"
    and cur: "output_LayerNorm l = cur"
  define c where "c = \<lparr>input_dim = packed_size pn0,
                attn_output_dim = packed_size new_norm1,
                ffn_output_dim = packed_size new_norm2,
                num_heads = h,
                qk_dim = out_features query,
                vo_dim = out_features val,
                ffn_dim = out_features w1,
                prune_attn = False,
                prune_ffn = False\<rparr>"
  have l': "attention_output_LayerNorm l' = PackedLayerNorm new_norm1"
    "output_LayerNorm l' = PackedLayerNorm new_norm2"
    "attention_self_query l' = Linear query"
    "attention_self_value l' = Linear val"
    "intermediate_dense l' = Linear w1"
    using new by auto
  have cfg: "layer_configs h pp (l' # rest)
             = bind (layer_configs h (PackedLayerNorm new_norm2) rest) (\<lambda>r. Inr (c # r))"
    by (simp add: l' pp c_def bind_def)
  have n0: "norm0 = n0" using slots(1) p by simp
  have widths: "packed_size new_norm1 = kept_count (ln_mask norm1)"
    "packed_size new_norm2 = kept_count (ln_mask norm2)"
    "out_features query = kept_count (lca_mask q)"
    "out_features val = kept_count (lca_mask v)"
    "out_features w1 = kept_count (lmb_mask w2m)"
    using layer_norm_extract_size [OF norms(1)] layer_norm_extract_size [OF norms(2)]
      merge_shape [OF qs(2)] compactor_extract_Output_shape(1) [OF qs(1)]
      merge_shape [OF vs(2)] compactor_extract_Output_shape(1) [OF vs(1)]
      merge_mask_shape(2) [OF ws]
    by (simp_all add: kept_count_def)
  have acc: "widths_account p l c"
    using slots widths size n0 by (simp add: widths_account_def c_def)
  have "cur = LayerNormWithCompactor norm2" using slots(3) cur by simp
  with cfg acc cur widths(2) show ?thesis
    by (intro exI [of _ c] exI [of _ norm2] exI [of _ new_norm2]) (simp add: c_def)
qed

lemma layer_configs_mix_layers:
  assumes "mix_layers p ls = Inr (ls', final)"
    and "p = LayerNormWithCompactor n0" and "pp = PackedLayerNorm pn0"
    and "packed_size pn0 = kept_count (ln_mask n0)"
  shows "\<exists>cfgs. layer_configs h pp ls' = Inr cfgs \<and> length cfgs = length ls
           \<and> (\<forall>i<length ls. widths_account
                  (if i = 0 then p else output_LayerNorm (ls ! (i - 1))) (ls ! i) (cfgs ! i))
           \<and> (\<forall>c\<in>set cfgs. \<not> prune_attn c \<and> \<not> prune_ffn c)"
  using assms
proof (induction ls arbitrary: p pp n0 pn0 ls' final)
  case Nil
  then show ?case by simp
next
  case (Cons l ls)
  from Cons.prems(1) obtain l' cur rest where
    step: "mix_layer p l = Inr (l', cur)"
    and tail: "mix_layers cur ls = Inr (rest, final)"
    and ls': "ls' = l' # rest"
    by (auto simp: bind_eq_Inr)
  from mix_layer_config [OF step Cons.prems(2-4), of h rest] obtain c n2 pn2 where
    cfg: "layer_configs h pp (l' # rest)
             = bind (layer_configs h (PackedLayerNorm pn2) rest) (\<lambda>r. Inr (c # r))"
    and c: "widths_account p l c" "\<not> prune_attn c" "\<not> prune_ffn c"
    and cur: "cur = LayerNormWithCompactor n2" "cur = output_LayerNorm l"
    and size: "packed_size pn2 = kept_count (ln_mask n2)"
    by blast
  from Cons.IH [OF tail cur(1) refl size] obtain cfgs where
    cfgs: "layer_configs h (PackedLayerNorm pn2) rest = Inr cfgs" "length cfgs = length ls"
    and acc: "\<forall>i<length ls. widths_account
                  (if i = 0 then cur else output_LayerNorm (ls ! (i - 1))) (ls ! i) (cfgs ! i)"
    and flags: "\<forall>c\<in>set cfgs. \<not> prune_attn c \<and> \<not> prune_ffn c"
    by blast
  have "widths_account (if i = 0 then p else output_LayerNorm ((l # ls) ! (i - 1)))
          ((l # ls) ! i) ((c # cfgs) ! i)" if "i < length (l # ls)" for i
  proof (cases i)
    case 0
    then show ?thesis using c(1) by simp
  next
    case (Suc j)
    then have "j < length ls" using that by simp
    with acc have "widths_account
        (if j = 0 then cur else output_LayerNorm (ls ! (j - 1))) (ls ! j) (cfgs ! j)"
      by blast
    then show ?thesis using Suc cur(2) by (cases j) simp_all
  qed
  then show ?case
    using cfg cfgs c(2,3) flags ls' by (simp add: bind_def)
qed


lemma mix_model_InrE:
  assumes "mix_model model = Inr new_model"
  obtains new_layers last_module first_norm last_norm dense_linear
    first_in_comp new_first_norm last_out_comp new_dense
  where "mix_layers (embeddings_LayerNorm model) (encoder_layer model)
           = Inr (new_layers, last_module)"
    and "embeddings_LayerNorm model = LayerNormWithCompactor first_norm"
    and "last_module = LayerNormWithCompactor last_norm"
    and "pooler_dense model = Some (Linear dense_linear)"
    and "compactor_extract (in_comp first_norm) Output (snd (parse (ln_mask first_norm)))
           (Some (fst (parse (ln_mask first_norm)))) = Inr first_in_comp"
    and "layer_norm_extract first_norm (snd (parse (ln_mask first_norm))) = Inr new_first_norm"
    and "compactor_extract (out_comp last_norm) Input (snd (parse (ln_mask last_norm)))
           (Some (fst (parse (ln_mask last_norm)))) = Inr last_out_comp"
    and "merge last_out_comp dense_linear = Inr new_dense"
    and "new_model = model\<lparr>encoder_layer := new_layers,
                       embeddings_LayerNorm :=
                         Sequential [Linear first_in_comp, PackedLayerNorm new_first_norm],
                       pooler_dense := Some (Linear new_dense)\<rparr>"
proof (cases "pooler_dense model")
  case None
  then show ?thesis using assms
    by (simp add: mix_model_def Let_def case_prod_beta bind_eq_Inr)
next
  case (Some dense)
  from assms show ?thesis
    unfolding mix_model_def Let_def case_prod_beta bind_eq_Inr Some option.case
      the_norm_Inr the_linear_Inr sum.inject
    apply (elim exE conjE)
    subgoal for x xa xb xc xd xe xf xg
      by (rule that [of "fst x" "snd x" xa xb xf xc xd xe xg]) (simp_all add: Some prod_eq_iff)
    done
qed

lemma mix_InrD:
  assumes "mix factory state_dict_of model = Inr (new_model, pm)"
  shows "mix_model model = Inr new_model"
    and "get_packed_bert_config new_model = Inr (pm_config pm)"
    and "load_state_dict (factory (pm_config pm)) (state_dict_of new_model) False
           = Inr (pm_state_dict pm)"
  using assms by (auto simp: mix_def bind_eq_Inr)

lemma mix_config:
  assumes "mix factory state_dict_of model = Inr (new_model, pm)"
  shows "length (per_layer_config (pm_config pm)) = length (encoder_layer model)
       \<and> (\<forall>i<length (encoder_layer model).
             widths_account (preceding_norm model i) (encoder_layer model ! i)
               (per_layer_config (pm_config pm) ! i))
       \<and> (\<forall>c\<in>set (per_layer_config (pm_config pm)). \<not> prune_attn c \<and> \<not> prune_ffn c)"
proof -
  from mix_InrD(1) [OF assms] show ?thesis
  proof (rule mix_model_InrE)
    fix new_layers last_module first_norm last_norm dense_linear
      first_in_comp new_first_norm last_out_comp new_dense
    assume loop: "mix_layers (embeddings_LayerNorm model) (encoder_layer model)
           = Inr (new_layers, last_module)"
      and first: "embeddings_LayerNorm model = LayerNormWithCompactor first_norm"
      and ext: "layer_norm_extract first_norm (snd (parse (ln_mask first_norm)))
                  = Inr new_first_norm"
      and new: "new_model = model\<lparr>encoder_layer := new_layers,
                       embeddings_LayerNorm :=
                         Sequential [Linear first_in_comp, PackedLayerNorm new_first_norm],
                       pooler_dense := Some (Linear new_dense)\<rparr>"
    have size: "packed_size new_first_norm = kept_count (ln_mask first_norm)"
      using layer_norm_extract_size [OF ext] by (simp add: kept_count_def)
    from layer_configs_mix_layers [OF loop first refl size, of "num_attention_heads model"]
    obtain cfgs where
      cfgs: "layer_configs (num_attention_heads model) (PackedLayerNorm new_first_norm)
               new_layers = Inr cfgs"
      and len: "length cfgs = length (encoder_layer model)"
      and acc: "\<forall>i<length (encoder_layer model). widths_account
                  (if i = 0 then embeddings_LayerNorm model
                   else output_LayerNorm (encoder_layer model ! (i - 1)))
                  (encoder_layer model ! i) (cfgs ! i)"
      and flags: "\<forall>c\<in>set cfgs. \<not> prune_attn c \<and> \<not> prune_ffn c"
      by blast
    have "get_packed_bert_config new_model
          = Inr \<lparr>p_num_attention_heads = num_attention_heads model, per_layer_config = cfgs\<rparr>"
      using cfgs by (simp add: get_packed_bert_config_def new bind_def)
    with mix_InrD(2) [OF assms] have "pm_config pm
          = \<lparr>p_num_attention_heads = num_attention_heads model, per_layer_config = cfgs\<rparr>"
      by simp
    then have "per_layer_config (pm_config pm) = cfgs" by simp
    with len acc flags show ?thesis by (simp add: preceding_norm_def)
  qed
qed

section \<open>Compaction of one layer: claims\<close>

text \<open>
  C4. The claim: the chain fused into the query transform begins with the \<^verbatim>\<open>out_comp\<close> of
  \<^verbatim>\<open>norm0\<close> extracted on its output side (row selection, a transform from \<open>D\<close> to \<open>K\<close>
  features), and likewise the chain of the feed-forward up-projection with the
  \<^verbatim>\<open>out_comp\<close> of \<^verbatim>\<open>norm1\<close>. The code extracts both on the input side (lines 155 and
  182). On \<open>ex_layer\<close> after \<open>ex_norm0\<close>, which keeps one feature of two, the code builds
  the query transform of weight \<open>[[3]]\<close>, while the chain of the claim cannot be built:
  its first transform has one output and the base query transform takes two inputs.
\<close>

theorem query_chain_output_side_counterexample:
  "mix_layer (LayerNormWithCompactor ex_norm0) ex_layer
     = Inr (ex_new_layer, LayerNormWithCompactor ex_norm2)
   \<and> attention_self_query ex_layer = LinearWithCompactorAfter ex_query
   \<and> attention_self_query ex_new_layer
       = Linear \<lparr>in_features = 1, out_features = 1, weight = [[3]], bias = None\<rparr>
   \<and> spec_query_chain ex_norm0 ex_query = Inl RuntimeError"
  by code_simp

text \<open>
  C4 as amended: whenever the loop body succeeds on a layer, the query slot holds the fusion
  of the \<^verbatim>\<open>out_comp\<close> of \<^verbatim>\<open>norm0\<close> extracted on its input side with the indices and values
  of the mask of \<^verbatim>\<open>norm0\<close> (a transform from the \<open>K\<close> kept features to the \<open>D\<close> outputs of
  the compactor), the base query transform and the output-side extraction of the query
  compactor; and the up-projection slot holds the fusion of the \<^verbatim>\<open>out_comp\<close> of \<^verbatim>\<open>norm1\<close>
  extracted on its input side with the base up-projection, restricted to the rows at the
  feed-forward indices.
\<close>

theorem mix_layer_first_transform_input_side:
  assumes "mix_layer past_layer_norm layer = Inr (new_layer, cursor)"
  shows "\<exists>norm0 norm1 q w2m w1l first_q qc query first_w1 w1.
           the_norm past_layer_norm = Inr norm0
         \<and> the_norm (attention_output_LayerNorm layer) = Inr norm1
         \<and> the_compactor_after (attention_self_query layer) = Inr q
         \<and> the_mask_before (output_dense layer) = Inr w2m
         \<and> the_linear (intermediate_dense layer) = Inr w1l
         \<and> compactor_extract (out_comp norm0) Input (snd (parse (ln_mask norm0)))
              (Some (fst (parse (ln_mask norm0)))) = Inr first_q
         \<and> in_features first_q = kept_count (ln_mask norm0)
         \<and> out_features first_q = out_features (out_comp norm0)
         \<and> compactor_extract (lca_compactor q) Output (snd (parse (lca_mask q)))
              (Some (fst (parse (lca_mask q)))) = Inr qc
         \<and> bind (merge first_q (lca_base q)) (\<lambda>q1. merge q1 qc) = Inr query
         \<and> attention_self_query new_layer = Linear query
         \<and> compactor_extract (out_comp norm1) Input (snd (parse (ln_mask norm1)))
              (Some (fst (parse (ln_mask norm1)))) = Inr first_w1
         \<and> in_features first_w1 = kept_count (ln_mask norm1)
         \<and> out_features first_w1 = out_features (out_comp norm1)
         \<and> bind (merge first_w1 w1l) (\<lambda>w1a. merge_mask w1a (snd (parse (lmb_mask w2m))))
             = Inr w1
         \<and> intermediate_dense new_layer = Linear w1"
  using assms
proof (rule mix_layer_InrE)
  fix norm0 norm1 norm2 q k v ob w2m w1l new_norm1 new_norm2 norm0_out_comp norm1_in_comp
    q1 qc query k1 kc key v1 vc val oc o1 outp norm1_out_comp norm2_in_comp
    w1a w1 w2a w2 residual1 residual2
  assume f: "the_norm past_layer_norm = Inr norm0"
    "the_norm (attention_output_LayerNorm layer) = Inr norm1"
    "the_compactor_after (attention_self_query layer) = Inr q"
    "the_mask_before (output_dense layer) = Inr w2m"
    "the_linear (intermediate_dense layer) = Inr w1l"
    "compactor_extract (out_comp norm0) Input (snd (parse (ln_mask norm0)))
           (Some (fst (parse (ln_mask norm0)))) = Inr norm0_out_comp"
    "compactor_extract (lca_compactor q) Output (snd (parse (lca_mask q)))
           (Some (fst (parse (lca_mask q)))) = Inr qc"
    "merge norm0_out_comp (lca_base q) = Inr q1"
    "merge q1 qc = Inr query"
    "compactor_extract (out_comp norm1) Input (snd (parse (ln_mask norm1)))
           (Some (fst (parse (ln_mask norm1)))) = Inr norm1_out_comp"
    "merge norm1_out_comp w1l = Inr w1a"
    "merge_mask w1a (snd (parse (lmb_mask w2m))) = Inr w1"
  assume new: "layer\<lparr>attention_output_LayerNorm := PackedLayerNorm new_norm1,
                   output_LayerNorm := PackedLayerNorm new_norm2,
                   attention_self_query := Linear query,
                   attention_self_key := Linear key,
                   attention_self_value := Linear val,
                   attention_output_dense := Linear outp,
                   intermediate_dense := Linear w1,
                   output_dense := Linear w2,
                   attention_output_residual := Linear residual1,
                   output_residual := Linear residual2\<rparr> = new_layer"
  have slots: "attention_self_query new_layer = Linear query"
    "intermediate_dense new_layer = Linear w1"
    using new by auto
  have chains: "bind (merge norm0_out_comp (lca_base q)) (\<lambda>q1. merge q1 qc) = Inr query"
    "bind (merge norm1_out_comp w1l) (\<lambda>w1a. merge_mask w1a (snd (parse (lmb_mask w2m))))
       = Inr w1"
    using f by (simp_all add: bind_def)
  show ?thesis
    using f(1-7) f(10) slots chains
      compactor_extract_Input_shape [OF f(6)] compactor_extract_Input_shape [OF f(10)]
    unfolding kept_count_def by blast
qed

text \<open>The amended C4 at \<open>ex_layer\<close> after \<open>ex_norm0\<close>.\<close>

theorem mix_layer_first_transform_input_side_witness:
  "mix_layer (LayerNormWithCompactor ex_norm0) ex_layer
     = Inr (ex_new_layer, LayerNormWithCompactor ex_norm2)
   \<and> (\<exists>norm0 norm1 q w2m w1l first_q qc query first_w1 w1.
           the_norm (LayerNormWithCompactor ex_norm0) = Inr norm0
         \<and> the_norm (attention_output_LayerNorm ex_layer) = Inr norm1
         \<and> the_compactor_after (attention_self_query ex_layer) = Inr q
         \<and> the_mask_before (output_dense ex_layer) = Inr w2m
         \<and> the_linear (intermediate_dense ex_layer) = Inr w1l
         \<and> compactor_extract (out_comp norm0) Input (snd (parse (ln_mask norm0)))
              (Some (fst (parse (ln_mask norm0)))) = Inr first_q
         \<and> in_features first_q = kept_count (ln_mask norm0)
         \<and> out_features first_q = out_features (out_comp norm0)
         \<and> compactor_extract (lca_compactor q) Output (snd (parse (lca_mask q)))
              (Some (fst (parse (lca_mask q)))) = Inr qc
         \<and> bind (merge first_q (lca_base q)) (\<lambda>q1. merge q1 qc) = Inr query
         \<and> attention_self_query ex_new_layer = Linear query
         \<and> compactor_extract (out_comp norm1) Input (snd (parse (ln_mask norm1)))
              (Some (fst (parse (ln_mask norm1)))) = Inr first_w1
         \<and> in_features first_w1 = kept_count (ln_mask norm1)
         \<and> out_features first_w1 = out_features (out_comp norm1)
         \<and> bind (merge first_w1 w1l) (\<lambda>w1a. merge_mask w1a (snd (parse (lmb_mask w2m))))
             = Inr w1
         \<and> intermediate_dense ex_new_layer = Linear w1)"
proof -
  have h: "mix_layer (LayerNormWithCompactor ex_norm0) ex_layer
     = Inr (ex_new_layer, LayerNormWithCompactor ex_norm2)"
    by code_simp
  from h mix_layer_first_transform_input_side [OF h] show ?thesis by (rule conjI)
qed

text \<open>
  C5. Whenever the loop body succeeds on a layer, the key transform is fused like the query
  transform, from the same first transform and from the output-side extraction of its own
  compactor at the indices parsed from the mask of the query module, but with no values.
  The values act on the query side only: the query transform is the transform \<open>unscaled\<close>,
  built the key's way from the query module, with row \<open>k\<close> of the weight and entry \<open>k\<close> of
  the bias multiplied by the \<open>k\<close>-th value of the query mask.
\<close>

theorem key_chain_shares_indices_without_scaling:
  assumes "mix_layer past_layer_norm layer = Inr (new_layer, cursor)"
  shows "\<exists>norm0 q k first qc kc query key unscaled.
           the_norm past_layer_norm = Inr norm0
         \<and> the_compactor_after (attention_self_query layer) = Inr q
         \<and> the_compactor_after (attention_self_key layer) = Inr k
         \<and> compactor_extract (out_comp norm0) Input (snd (parse (ln_mask norm0)))
              (Some (fst (parse (ln_mask norm0)))) = Inr first
         \<and> compactor_extract (lca_compactor q) Output (snd (parse (lca_mask q)))
              (Some (fst (parse (lca_mask q)))) = Inr qc
         \<and> compactor_extract (lca_compactor k) Output (snd (parse (lca_mask q))) None = Inr kc
         \<and> bind (merge first (lca_base q)) (\<lambda>q1. merge q1 qc) = Inr query
         \<and> attention_self_query new_layer = Linear query
         \<and> bind (merge first (lca_base k)) (\<lambda>k1. merge k1 kc) = Inr key
         \<and> attention_self_key new_layer = Linear key
         \<and> bind (compactor_extract (lca_compactor q) Output (snd (parse (lca_mask q))) None)
              (\<lambda>qn. bind (merge first (lca_base q)) (\<lambda>q1. merge q1 qn)) = Inr unscaled
         \<and> in_features query = in_features unscaled
         \<and> out_features query = out_features unscaled
         \<and> weight query = scale_rows (fst (parse (lca_mask q))) (weight unscaled)
         \<and> bias query = map_option (vmul (fst (parse (lca_mask q)))) (bias unscaled)"
  using assms
proof (rule mix_layer_InrE)
  fix norm0 norm1 norm2 q k v ob w2m w1l new_norm1 new_norm2 norm0_out_comp norm1_in_comp
    q1 qc query k1 kc key v1 vc val oc o1 outp norm1_out_comp norm2_in_comp
    w1a w1 w2a w2 residual1 residual2
  assume f: "the_norm past_layer_norm = Inr norm0"
    "the_compactor_after (attention_self_query layer) = Inr q"
    "the_compactor_after (attention_self_key layer) = Inr k"
    "compactor_extract (out_comp norm0) Input (snd (parse (ln_mask norm0)))
           (Some (fst (parse (ln_mask norm0)))) = Inr norm0_out_comp"
    "compactor_extract (lca_compactor q) Output (snd (parse (lca_mask q)))
           (Some (fst (parse (lca_mask q)))) = Inr qc"
    "compactor_extract (lca_compactor k) Output (snd (parse (lca_mask q))) None = Inr kc"
  assume m: "merge norm0_out_comp (lca_base q) = Inr q1" "merge q1 qc = Inr query"
    "merge norm0_out_comp (lca_base k) = Inr k1" "merge k1 kc = Inr key"
  assume new: "layer\<lparr>attention_output_LayerNorm := PackedLayerNorm new_norm1,
                   output_LayerNorm := PackedLayerNorm new_norm2,
                   attention_self_query := Linear query,
                   attention_self_key := Linear key,
                   attention_self_value := Linear val,
                   attention_output_dense := Linear outp,
                   intermediate_dense := Linear w1,
                   output_dense := Linear w2,
                   attention_output_residual := Linear residual1,
                   output_residual := Linear residual2\<rparr> = new_layer"
  have slots: "attention_self_query new_layer = Linear query"
    "attention_self_key new_layer = Linear key"
    using new by auto
  have chains: "bind (merge norm0_out_comp (lca_base q)) (\<lambda>q1. merge q1 qc) = Inr query"
    "bind (merge norm0_out_comp (lca_base k)) (\<lambda>k1. merge k1 kc) = Inr key"
    using m by (simp_all add: bind_def)
  from compactor_extract_Output_Some [OF f(5)] obtain qn where
    qn: "compactor_extract (lca_compactor q) Output (snd (parse (lca_mask q))) None = Inr qn"
    and qc: "qc = qn\<lparr>weight := scale_rows (fst (parse (lca_mask q))) (weight qn),
                     bias := map_option (vmul (fst (parse (lca_mask q)))) (bias qn)\<rparr>"
    by blast
  from qn have mm: "merge_mask (lca_compactor q) (snd (parse (lca_mask q))) = Inr qn"
    by (simp add: compactor_extract_Output_None)
  have "\<exists>M0. merge q1 qn = Inr M0 \<and> in_features query = in_features M0
           \<and> out_features query = out_features M0
           \<and> weight query = scale_rows (fst (parse (lca_mask q))) (weight M0)
           \<and> bias query = map_option (vmul (fst (parse (lca_mask q)))) (bias M0)"
    using m(2) unfolding qc
    by (rule merge_scaled) (simp_all add: merge_mask_shape [OF mm])
  then obtain unscaled where u: "merge q1 qn = Inr unscaled"
    "in_features query = in_features unscaled" "out_features query = out_features unscaled"
    "weight query = scale_rows (fst (parse (lca_mask q))) (weight unscaled)"
    "bias query = map_option (vmul (fst (parse (lca_mask q)))) (bias unscaled)"
    by blast
  have "bind (compactor_extract (lca_compactor q) Output (snd (parse (lca_mask q))) None)
          (\<lambda>qn. bind (merge norm0_out_comp (lca_base q)) (\<lambda>q1. merge q1 qn)) = Inr unscaled"
    using qn m(1) u(1) by (simp add: bind_def)
  with f slots chains u(2-5) show ?thesis by blast
qed

text \<open>C5 at \<open>ex_layer\<close> after \<open>ex_norm0\<close>.\<close>

theorem key_chain_shares_indices_without_scaling_witness:
  "mix_layer (LayerNormWithCompactor ex_norm0) ex_layer
     = Inr (ex_new_layer, LayerNormWithCompactor ex_norm2)
   \<and> (\<exists>norm0 q k first qc kc query key unscaled.
           the_norm (LayerNormWithCompactor ex_norm0) = Inr norm0
         \<and> the_compactor_after (attention_self_query ex_layer) = Inr q
         \<and> the_compactor_after (attention_self_key ex_layer) = Inr k
         \<and> compactor_extract (out_comp norm0) Input (snd (parse (ln_mask norm0)))
              (Some (fst (parse (ln_mask norm0)))) = Inr first
         \<and> compactor_extract (lca_compactor q) Output (snd (parse (lca_mask q)))
              (Some (fst (parse (lca_mask q)))) = Inr qc
         \<and> compactor_extract (lca_compactor k) Output (snd (parse (lca_mask q))) None = Inr kc
         \<and> bind (merge first (lca_base q)) (\<lambda>q1. merge q1 qc) = Inr query
         \<and> attention_self_query ex_new_layer = Linear query
         \<and> bind (merge first (lca_base k)) (\<lambda>k1. merge k1 kc) = Inr key
         \<and> attention_self_key ex_new_layer = Linear key
         \<and> bind (compactor_extract (lca_compactor q) Output (snd (parse (lca_mask q))) None)
              (\<lambda>qn. bind (merge first (lca_base q)) (\<lambda>q1. merge q1 qn)) = Inr unscaled
         \<and> in_features query = in_features unscaled
         \<and> out_features query = out_features unscaled
         \<and> weight query = scale_rows (fst (parse (lca_mask q))) (weight unscaled)
         \<and> bias query = map_option (vmul (fst (parse (lca_mask q)))) (bias unscaled))"
proof -
  have h: "mix_layer (LayerNormWithCompactor ex_norm0) ex_layer
     = Inr (ex_new_layer, LayerNormWithCompactor ex_norm2)"
    by code_simp
  from h key_chain_shares_indices_without_scaling [OF h] show ?thesis by (rule conjI)
qed

section \<open>Compaction of the model: claims\<close>

lemma mix_layer_compacted:
  assumes "mix_layer p l = Inr (l', cur)"
  shows "compacted_layer l'" and "attention_output_mask l' = attention_output_mask l"
    and "output_mask l' = output_mask l"
  using assms by (rule mix_layer_InrE; auto simp: compacted_layer_def)+

lemma mix_layers_compacted:
  assumes "mix_layers p ls = Inr (ls', final)"
  shows "list_all compacted_layer ls'
       \<and> map attention_output_mask ls' = map attention_output_mask ls
       \<and> map output_mask ls' = map output_mask ls"
  using assms
proof (induction ls arbitrary: p ls')
  case Nil
  then show ?case by simp
next
  case (Cons l ls)
  from Cons.prems obtain l' cur rest where
    step: "mix_layer p l = Inr (l', cur)"
    and tail: "mix_layers cur ls = Inr (rest, final)"
    and ls': "ls' = l' # rest"
    by (auto simp: bind_eq_Inr)
  from Cons.IH [OF tail] mix_layer_compacted [OF step] ls' show ?case by simp
qed

lemma bind_Inr: "bind (Inr x) f = f x"
  by (simp add: bind_def)

lemma mix_layer_other_key:
  assumes "attention_self_key l = LinearWithCompactorAfter a"
    and "lca_base a = lca_base b" and "lca_compactor a = lca_compactor b"
  shows "mix_layer p (l\<lparr>attention_self_key := LinearWithCompactorAfter b\<rparr>) = mix_layer p l"
  using assms by (simp add: mix_layer_def bind_Inr)

lemma mix_layer_key_mask:
  assumes "same_layer_but_key_mask l1 l2"
  shows "mix_layer p l1 = mix_layer p l2"
proof -
  from assms have eq: "l1\<lparr>attention_self_key := Absent\<rparr> = l2\<lparr>attention_self_key := Absent\<rparr>"
    and key: "same_key_but_mask (attention_self_key l1) (attention_self_key l2)"
    by (simp_all add: same_layer_but_key_mask_def)
  from eq have "l1\<lparr>attention_self_key := Absent\<rparr>\<lparr>attention_self_key := attention_self_key l2\<rparr>
        = l2\<lparr>attention_self_key := Absent\<rparr>\<lparr>attention_self_key := attention_self_key l2\<rparr>"
    by simp
  then have l2: "l2 = l1\<lparr>attention_self_key := attention_self_key l2\<rparr>" by simp
  show ?thesis
  proof (cases "attention_self_key l1 = attention_self_key l2")
    case True
    have "l1\<lparr>attention_self_key := attention_self_key l1\<rparr> = l1" by simp
    with l2 have "l2 = l1" unfolding True [symmetric] by (rule trans)
    then show ?thesis by simp
  next
    case False
    with key obtain a b where ab: "attention_self_key l1 = LinearWithCompactorAfter a"
      "attention_self_key l2 = LinearWithCompactorAfter b"
      "lca_base a = lca_base b" "lca_compactor a = lca_compactor b"
      by (auto simp: same_key_but_mask_def split: module.splits)
    have "mix_layer p (l1\<lparr>attention_self_key := LinearWithCompactorAfter b\<rparr>) = mix_layer p l1"
      using ab(1,3,4) by (rule mix_layer_other_key)
    with l2 ab(2) show ?thesis by simp
  qed
qed

lemma mix_layers_key_mask:
  assumes "list_all2 same_layer_but_key_mask ls1 ls2"
  shows "mix_layers p ls1 = mix_layers p ls2"
  using assms
proof (induction ls1 ls2 arbitrary: p rule: list_all2_induct)
  case Nil
  then show ?case by simp
next
  case (Cons l1 ls1 l2 ls2)
  then show ?case by (simp add: mix_layer_key_mask [of l1 l2])
qed

lemma mix_model_key_mask:
  assumes "same_but_key_mask m1 m2"
  shows "mix_model m1 = mix_model m2"
proof -
  from assms have f: "num_attention_heads m1 = num_attention_heads m2"
    "embeddings_LayerNorm m1 = embeddings_LayerNorm m2"
    "pooler_dense m1 = pooler_dense m2"
    and ls: "list_all2 same_layer_but_key_mask (encoder_layer m1) (encoder_layer m2)"
    by (simp_all add: same_but_key_mask_def)
  have loop: "mix_layers p (encoder_layer m1) = mix_layers p (encoder_layer m2)" for p
    using ls by (rule mix_layers_key_mask)
  have upd: "m1\<lparr>encoder_layer := x, embeddings_LayerNorm := y, pooler_dense := z\<rparr>
           = m2\<lparr>encoder_layer := x, embeddings_LayerNorm := y, pooler_dense := z\<rparr>" for x y z
    using f by (cases m1; cases m2) simp
  show ?thesis
    unfolding mix_model_def f loop upd ..
qed

lemma load_state_dict_not_strict:
  "load_state_dict target source False =
     (if list_ex (\<lambda>(k, t). case map_of source k of
                              None \<Rightarrow> False
                            | Some s \<Rightarrow> shape s \<noteq> shape t) target
      then Inl RuntimeError
      else Inr (map (\<lambda>(k, t). (k, case map_of source k of None \<Rightarrow> t | Some s \<Rightarrow> s))
                  target))"
proof -
  have "filter (\<lambda>(k, t). case map_of source k of
                               None \<Rightarrow> False
                             | Some s \<Rightarrow> shape s \<noteq> shape t) target \<noteq> []
        \<longleftrightarrow> list_ex (\<lambda>(k, t). case map_of source k of
                              None \<Rightarrow> False
                            | Some s \<Rightarrow> shape s \<noteq> shape t) target"
    by (simp add: filter_empty_conv list_ex_iff)
  then show ?thesis
    by (simp add: load_state_dict_def Let_def)
qed


lemma no_mismatch:
  assumes "list_all (\<lambda>(k, t). case map_of source k of
                               None \<Rightarrow> True
                             | Some s \<Rightarrow> shape s = shape t) target"
  shows "\<not> list_ex (\<lambda>(k, t). case map_of source k of
                              None \<Rightarrow> False
                            | Some s \<Rightarrow> shape s \<noteq> shape t) target"
proof
  assume "list_ex (\<lambda>(k, t). case map_of source k of
                              None \<Rightarrow> False
                            | Some s \<Rightarrow> shape s \<noteq> shape t) target"
  then obtain k t where kt: "(k, t) \<in> set target"
    and bad: "case map_of source k of None \<Rightarrow> False | Some s \<Rightarrow> shape s \<noteq> shape t"
    unfolding list_ex_iff by fast
  from assms kt have "case map_of source k of None \<Rightarrow> True | Some s \<Rightarrow> shape s = shape t"
    unfolding list_all_iff by fast
  with bad show False by (cases "map_of source k") simp_all
qed

lemma mix_layer_slots:
  assumes "mix_layer prev l = Inr (l', cur)"
  shows "cur = output_LayerNorm l \<and>
   (\<exists>norm0 norm1 norm2 q k v ob w1l w2m
      norm0_out_comp norm1_in_comp norm1_out_comp norm2_in_comp qc kc vc oc w2a
      new_norm1 new_norm2 query key val outp w1 w2 residual1 residual2.
      prev = LayerNormWithCompactor norm0
    \<and> attention_output_LayerNorm l = LayerNormWithCompactor norm1
    \<and> output_LayerNorm l = LayerNormWithCompactor norm2
    \<and> attention_self_query l = LinearWithCompactorAfter q
    \<and> attention_self_key l = LinearWithCompactorAfter k
    \<and> attention_self_value l = LinearWithCompactorAfter v
    \<and> attention_output_dense l = LinearWithCompactorBefore ob
    \<and> intermediate_dense l = Linear w1l
    \<and> output_dense l = LinearWithMaskBefore w2m
    \<and> compactor_extract (out_comp norm0) Input (snd (parse (ln_mask norm0)))
         (Some (fst (parse (ln_mask norm0)))) = Inr norm0_out_comp
    \<and> compactor_extract (in_comp norm1) Output (snd (parse (ln_mask norm1)))
         (Some (fst (parse (ln_mask norm1)))) = Inr norm1_in_comp
    \<and> compactor_extract (out_comp norm1) Input (snd (parse (ln_mask norm1)))
         (Some (fst (parse (ln_mask norm1)))) = Inr norm1_out_comp
    \<and> compactor_extract (in_comp norm2) Output (snd (parse (ln_mask norm2)))
         (Some (fst (parse (ln_mask norm2)))) = Inr norm2_in_comp
    \<and> compactor_extract (lca_compactor q) Output (snd (parse (lca_mask q)))
         (Some (fst (parse (lca_mask q)))) = Inr qc
    \<and> compactor_extract (lca_compactor k) Output (snd (parse (lca_mask q))) None = Inr kc
    \<and> compactor_extract (lca_compactor v) Output (snd (parse (lca_mask v)))
         (Some (fst (parse (lca_mask v)))) = Inr vc
    \<and> compactor_extract (lcb_compactor ob) Input (snd (parse (lca_mask v))) None = Inr oc
    \<and> mask_before_extract w2m (snd (parse (lmb_mask w2m))) (fst (parse (lmb_mask w2m)))
         = Inr w2a
    \<and> layer_norm_extract norm1 (snd (parse (ln_mask norm1))) = Inr new_norm1
    \<and> attention_output_LayerNorm l' = PackedLayerNorm new_norm1
    \<and> layer_norm_extract norm2 (snd (parse (ln_mask norm2))) = Inr new_norm2
    \<and> output_LayerNorm l' = PackedLayerNorm new_norm2
    \<and> bind (merge norm0_out_comp (lca_base q)) (\<lambda>q1. merge q1 qc) = Inr query
    \<and> attention_self_query l' = Linear query
    \<and> bind (merge norm0_out_comp (lca_base k)) (\<lambda>k1. merge k1 kc) = Inr key
    \<and> attention_self_key l' = Linear key
    \<and> bind (merge norm0_out_comp (lca_base v)) (\<lambda>v1. merge v1 vc) = Inr val
    \<and> attention_self_value l' = Linear val
    \<and> bind (merge oc (lcb_base ob)) (\<lambda>o1. merge o1 norm1_in_comp) = Inr outp
    \<and> attention_output_dense l' = Linear outp
    \<and> bind (merge norm1_out_comp w1l)
         (\<lambda>w1a. merge_mask w1a (snd (parse (lmb_mask w2m)))) = Inr w1
    \<and> intermediate_dense l' = Linear w1
    \<and> merge w2a norm2_in_comp = Inr w2
    \<and> output_dense l' = Linear w2
    \<and> merge norm0_out_comp norm1_in_comp = Inr residual1
    \<and> attention_output_residual l' = Linear residual1
    \<and> merge norm1_out_comp norm2_in_comp = Inr residual2
    \<and> output_residual l' = Linear residual2
    \<and> attention_output_mask l' = attention_output_mask l
    \<and> output_mask l' = output_mask l)"
  using assms
proof (rule mix_layer_InrE)
  fix norm0 norm1 norm2 q k v ob w2m w1l new_norm1 new_norm2 norm0_out_comp norm1_in_comp
    q1 qc query k1 kc key v1 vc val oc o1 outp norm1_out_comp norm2_in_comp
    w1a w1 w2a w2 residual1 residual2
  assume mods: "the_norm prev = Inr norm0"
    "the_norm (attention_output_LayerNorm l) = Inr norm1"
    "the_norm (output_LayerNorm l) = Inr norm2"
    "the_compactor_after (attention_self_query l) = Inr q"
    "the_compactor_after (attention_self_key l) = Inr k"
    "the_compactor_after (attention_self_value l) = Inr v"
    "the_compactor_before (attention_output_dense l) = Inr ob"
    "the_linear (intermediate_dense l) = Inr w1l"
    "the_mask_before (output_dense l) = Inr w2m"
  assume ext: "compactor_extract (out_comp norm0) Input (snd (parse (ln_mask norm0)))
           (Some (fst (parse (ln_mask norm0)))) = Inr norm0_out_comp"
    "compactor_extract (in_comp norm1) Output (snd (parse (ln_mask norm1)))
           (Some (fst (parse (ln_mask norm1)))) = Inr norm1_in_comp"
    "compactor_extract (out_comp norm1) Input (snd (parse (ln_mask norm1)))
           (Some (fst (parse (ln_mask norm1)))) = Inr norm1_out_comp"
    "compactor_extract (in_comp norm2) Output (snd (parse (ln_mask norm2)))
           (Some (fst (parse (ln_mask norm2)))) = Inr norm2_in_comp"
    "compactor_extract (lca_compactor q) Output (snd (parse (lca_mask q)))
           (Some (fst (parse (lca_mask q)))) = Inr qc"
    "compactor_extract (lca_compactor k) Output (snd (parse (lca_mask q))) None = Inr kc"
    "compactor_extract (lca_compactor v) Output (snd (parse (lca_mask v)))
           (Some (fst (parse (lca_mask v)))) = Inr vc"
    "compactor_extract (lcb_compactor ob) Input (snd (parse (lca_mask v))) None = Inr oc"
    "mask_before_extract w2m (snd (parse (lmb_mask w2m))) (fst (parse (lmb_mask w2m)))
           = Inr w2a"
    "layer_norm_extract norm1 (snd (parse (ln_mask norm1))) = Inr new_norm1"
    "layer_norm_extract norm2 (snd (parse (ln_mask norm2))) = Inr new_norm2"
  assume m: "merge norm0_out_comp (lca_base q) = Inr q1" "merge q1 qc = Inr query"
    "merge norm0_out_comp (lca_base k) = Inr k1" "merge k1 kc = Inr key"
    "merge norm0_out_comp (lca_base v) = Inr v1" "merge v1 vc = Inr val"
    "merge oc (lcb_base ob) = Inr o1" "merge o1 norm1_in_comp = Inr outp"
    "merge norm1_out_comp w1l = Inr w1a"
    "merge_mask w1a (snd (parse (lmb_mask w2m))) = Inr w1"
  assume direct: "merge w2a norm2_in_comp = Inr w2"
    "merge norm0_out_comp norm1_in_comp = Inr residual1"
    "merge norm1_out_comp norm2_in_comp = Inr residual2"
  assume new: "l\<lparr>attention_output_LayerNorm := PackedLayerNorm new_norm1,
                   output_LayerNorm := PackedLayerNorm new_norm2,
                   attention_self_query := Linear query,
                   attention_self_key := Linear key,
                   attention_self_value := Linear val,
                   attention_output_dense := Linear outp,
                   intermediate_dense := Linear w1,
                   output_dense := Linear w2,
                   attention_output_residual := Linear residual1,
                   output_residual := Linear residual2\<rparr> = l'"
    and cur: "output_LayerNorm l = cur"
  have old: "prev = LayerNormWithCompactor norm0"
    "attention_output_LayerNorm l = LayerNormWithCompactor norm1"
    "output_LayerNorm l = LayerNormWithCompactor norm2"
    "attention_self_query l = LinearWithCompactorAfter q"
    "attention_self_key l = LinearWithCompactorAfter k"
    "attention_self_value l = LinearWithCompactorAfter v"
    "attention_output_dense l = LinearWithCompactorBefore ob"
    "intermediate_dense l = Linear w1l"
    "output_dense l = LinearWithMaskBefore w2m"
    using mods by simp_all
  have chains: "bind (merge norm0_out_comp (lca_base q)) (\<lambda>q1. merge q1 qc) = Inr query"
    "bind (merge norm0_out_comp (lca_base k)) (\<lambda>k1. merge k1 kc) = Inr key"
    "bind (merge norm0_out_comp (lca_base v)) (\<lambda>v1. merge v1 vc) = Inr val"
    "bind (merge oc (lcb_base ob)) (\<lambda>o1. merge o1 norm1_in_comp) = Inr outp"
    "bind (merge norm1_out_comp w1l)
       (\<lambda>w1a. merge_mask w1a (snd (parse (lmb_mask w2m)))) = Inr w1"
    using m by (simp_all add: bind_Inr)
  have slots: "attention_output_LayerNorm l' = PackedLayerNorm new_norm1"
    "output_LayerNorm l' = PackedLayerNorm new_norm2"
    "attention_self_query l' = Linear query"
    "attention_self_key l' = Linear key"
    "attention_self_value l' = Linear val"
    "attention_output_dense l' = Linear outp"
    "intermediate_dense l' = Linear w1"
    "output_dense l' = Linear w2"
    "attention_output_residual l' = Linear residual1"
    "output_residual l' = Linear residual2"
    "attention_output_mask l' = attention_output_mask l"
    "output_mask l' = output_mask l"
    using new by auto
  show ?thesis
    using cur old ext chains direct slots
    by (intro conjI exI) (simp; fail | assumption)+
qed


lemma mix_layers_nth:
  assumes "mix_layers p ls = Inr (ls', final)"
  shows "length ls' = length ls
       \<and> final = (if ls = [] then p else output_LayerNorm (last ls))
       \<and> (\<forall>i<length ls. \<exists>cur.
             mix_layer (if i = 0 then p else output_LayerNorm (ls ! (i - 1))) (ls ! i)
               = Inr (ls' ! i, cur))"
  using assms
proof (induction ls arbitrary: p ls')
  case Nil
  then show ?case by simp
next
  case (Cons l ls)
  from Cons.prems obtain l' cur rest where
    step: "mix_layer p l = Inr (l', cur)"
    and tail: "mix_layers cur ls = Inr (rest, final)"
    and ls': "ls' = l' # rest"
    by (auto simp: bind_eq_Inr)
  from mix_layer_slots [OF step] have cur: "cur = output_LayerNorm l" by blast
  from Cons.IH [OF tail] have
    len: "length rest = length ls"
    and fin: "final = (if ls = [] then cur else output_LayerNorm (last ls))"
    and nth: "\<forall>i<length ls. \<exists>c.
             mix_layer (if i = 0 then cur else output_LayerNorm (ls ! (i - 1))) (ls ! i)
               = Inr (rest ! i, c)"
    by blast+
  have "\<exists>c. mix_layer (if i = 0 then p else output_LayerNorm ((l # ls) ! (i - 1)))
            ((l # ls) ! i) = Inr ((l' # rest) ! i, c)" if "i < length (l # ls)" for i
  proof (cases i)
    case 0
    then show ?thesis using step by auto
  next
    case (Suc j)
    then have "j < length ls" using that by simp
    with nth obtain c where
      "mix_layer (if j = 0 then cur else output_LayerNorm (ls ! (j - 1))) (ls ! j)
         = Inr (rest ! j, c)"
      by blast
    then show ?thesis using Suc cur by (cases j) auto
  qed
  with len fin cur ls' show ?case by simp
qed

text \<open>
  C6. The claim: \<^verbatim>\<open>mix\<close> reads the trained model only, and after it returns every
  sub-module of the input model is unchanged. The code assigns the transforms it builds to
  the slots of \<^verbatim>\<open>self.model\<close> (lines 149-152, 176-179, 192-201, 214-222). On \<open>ex_model\<close>
  the model that \<^verbatim>\<open>mix\<close> leaves is not the one it was given: the query slot of the layer,
  the embedding normalization and the dense slot of the pooler hold other modules.
\<close>

theorem mix_updates_model_in_place_counterexample:
  "mix ex_factory ex_state_dict_of ex_model = Inr (ex_new_model, ex_packed_model)
   \<and> ex_new_model \<noteq> ex_model
   \<and> attention_self_query (encoder_layer ex_new_model ! 0)
       \<noteq> attention_self_query (encoder_layer ex_model ! 0)
   \<and> embeddings_LayerNorm ex_new_model \<noteq> embeddings_LayerNorm ex_model
   \<and> pooler_dense ex_new_model \<noteq> pooler_dense ex_model"
  by code_simp

text \<open>
  C6 as amended: \<^verbatim>\<open>mix\<close> updates the input model in place, and every slot it assigns
  holds a transform newly built from the modules that the model had on entry. After it
  returns, the model has the same \<^verbatim>\<open>num_attention_heads\<close> and as many layers, each with
  the masks of its whole sub-blocks as they were. In layer \<open>i\<close>, with \<^verbatim>\<open>norm0\<close> the
  normalization that preceded the layer on entry and \<^verbatim>\<open>norm1\<close>, \<^verbatim>\<open>norm2\<close> its own on entry:
  the two normalization slots hold \<^verbatim>\<open>norm1\<close> and \<^verbatim>\<open>norm2\<close> reduced to their kept indices;
  the query, key and value slots hold the fusion of the input-side extraction of the
  \<^verbatim>\<open>out_comp\<close> of \<^verbatim>\<open>norm0\<close>, the base transform of the module and the output-side
  extraction of its compactor; the attention-output slot holds the fusion of the input-side
  extraction of its compactor, its base transform and the output-side extraction of the
  \<^verbatim>\<open>in_comp\<close> of \<^verbatim>\<open>norm1\<close>; the up-projection slot holds the fusion of the input-side
  extraction of the \<^verbatim>\<open>out_comp\<close> of \<^verbatim>\<open>norm1\<close> with the old up-projection, restricted to the
  feed-forward indices; the down-projection slot holds the fusion of the column extraction
  of the old down-projection with the output-side extraction of the \<^verbatim>\<open>in_comp\<close> of
  \<^verbatim>\<open>norm2\<close>; the two residual slots hold the fusions of the extractions around each
  sub-block. The embedding normalization is the sequence of the output-side extraction of
  its \<^verbatim>\<open>in_comp\<close> and its reduction, and the dense slot of the pooler holds the fusion of
  the input-side extraction of the \<^verbatim>\<open>out_comp\<close> of the last normalization with the dense
  transform that the pooler had on entry.
\<close>

theorem mix_replaces_slots:
  assumes "mix factory state_dict_of model = Inr (new_model, pm)"
  shows "num_attention_heads new_model = num_attention_heads model
       \<and> length (encoder_layer new_model) = length (encoder_layer model)
       \<and> list_all compacted_layer (encoder_layer new_model)
       \<and> (\<forall>i<length (encoder_layer model).
             \<exists>norm0 norm1 norm2 q k v ob w1l w2m
                norm0_out_comp norm1_in_comp norm1_out_comp norm2_in_comp qc kc vc oc w2a
                new_norm1 new_norm2 query key val outp w1 w2 residual1 residual2.
                preceding_norm model i = LayerNormWithCompactor norm0
              \<and> attention_output_LayerNorm (encoder_layer model ! i) = LayerNormWithCompactor norm1
              \<and> output_LayerNorm (encoder_layer model ! i) = LayerNormWithCompactor norm2
              \<and> attention_self_query (encoder_layer model ! i) = LinearWithCompactorAfter q
              \<and> attention_self_key (encoder_layer model ! i) = LinearWithCompactorAfter k
              \<and> attention_self_value (encoder_layer model ! i) = LinearWithCompactorAfter v
              \<and> attention_output_dense (encoder_layer model ! i) = LinearWithCompactorBefore ob
              \<and> intermediate_dense (encoder_layer model ! i) = Linear w1l
              \<and> output_dense (encoder_layer model ! i) = LinearWithMaskBefore w2m
              \<and> compactor_extract (out_comp norm0) Input (snd (parse (ln_mask norm0)))
                   (Some (fst (parse (ln_mask norm0)))) = Inr norm0_out_comp
              \<and> compactor_extract (in_comp norm1) Output (snd (parse (ln_mask norm1)))
                   (Some (fst (parse (ln_mask norm1)))) = Inr norm1_in_comp
              \<and> compactor_extract (out_comp norm1) Input (snd (parse (ln_mask norm1)))
                   (Some (fst (parse (ln_mask norm1)))) = Inr norm1_out_comp
              \<and> compactor_extract (in_comp norm2) Output (snd (parse (ln_mask norm2)))
                   (Some (fst (parse (ln_mask norm2)))) = Inr norm2_in_comp
              \<and> compactor_extract (lca_compactor q) Output (snd (parse (lca_mask q)))
                   (Some (fst (parse (lca_mask q)))) = Inr qc
              \<and> compactor_extract (lca_compactor k) Output (snd (parse (lca_mask q))) None = Inr kc
              \<and> compactor_extract (lca_compactor v) Output (snd (parse (lca_mask v)))
                   (Some (fst (parse (lca_mask v)))) = Inr vc
              \<and> compactor_extract (lcb_compactor ob) Input (snd (parse (lca_mask v))) None = Inr oc
              \<and> mask_before_extract w2m (snd (parse (lmb_mask w2m))) (fst (parse (lmb_mask w2m)))
                   = Inr w2a
              \<and> layer_norm_extract norm1 (snd (parse (ln_mask norm1))) = Inr new_norm1
              \<and> attention_output_LayerNorm (encoder_layer new_model ! i) = PackedLayerNorm new_norm1
              \<and> layer_norm_extract norm2 (snd (parse (ln_mask norm2))) = Inr new_norm2
              \<and> output_LayerNorm (encoder_layer new_model ! i) = PackedLayerNorm new_norm2
              \<and> bind (merge norm0_out_comp (lca_base q)) (\<lambda>q1. merge q1 qc) = Inr query
              \<and> attention_self_query (encoder_layer new_model ! i) = Linear query
              \<and> bind (merge norm0_out_comp (lca_base k)) (\<lambda>k1. merge k1 kc) = Inr key
              \<and> attention_self_key (encoder_layer new_model ! i) = Linear key
              \<and> bind (merge norm0_out_comp (lca_base v)) (\<lambda>v1. merge v1 vc) = Inr val
              \<and> attention_self_value (encoder_layer new_model ! i) = Linear val
              \<and> bind (merge oc (lcb_base ob)) (\<lambda>o1. merge o1 norm1_in_comp) = Inr outp
              \<and> attention_output_dense (encoder_layer new_model ! i) = Linear outp
              \<and> bind (merge norm1_out_comp w1l)
                   (\<lambda>w1a. merge_mask w1a (snd (parse (lmb_mask w2m)))) = Inr w1
              \<and> intermediate_dense (encoder_layer new_model ! i) = Linear w1
              \<and> merge w2a norm2_in_comp = Inr w2
              \<and> output_dense (encoder_layer new_model ! i) = Linear w2
              \<and> merge norm0_out_comp norm1_in_comp = Inr residual1
              \<and> attention_output_residual (encoder_layer new_model ! i) = Linear residual1
              \<and> merge norm1_out_comp norm2_in_comp = Inr residual2
              \<and> output_residual (encoder_layer new_model ! i) = Linear residual2
              \<and> attention_output_mask (encoder_layer new_model ! i) = attention_output_mask (encoder_layer model ! i)
              \<and> output_mask (encoder_layer new_model ! i) = output_mask (encoder_layer model ! i))
       \<and> (\<exists>first_norm last_norm dense first_in_comp new_first_norm last_out_comp new_dense.
              embeddings_LayerNorm model = LayerNormWithCompactor first_norm
            \<and> preceding_norm model (length (encoder_layer model)) = LayerNormWithCompactor last_norm
            \<and> pooler_dense model = Some (Linear dense)
            \<and> compactor_extract (in_comp first_norm) Output (snd (parse (ln_mask first_norm)))
                 (Some (fst (parse (ln_mask first_norm)))) = Inr first_in_comp
            \<and> layer_norm_extract first_norm (snd (parse (ln_mask first_norm))) = Inr new_first_norm
            \<and> embeddings_LayerNorm new_model
                 = Sequential [Linear first_in_comp, PackedLayerNorm new_first_norm]
            \<and> compactor_extract (out_comp last_norm) Input (snd (parse (ln_mask last_norm)))
                 (Some (fst (parse (ln_mask last_norm)))) = Inr last_out_comp
            \<and> merge last_out_comp dense = Inr new_dense
            \<and> pooler_dense new_model = Some (Linear new_dense))"
proof -
  from mix_InrD(1) [OF assms] show ?thesis
  proof (rule mix_model_InrE)
    fix new_layers last_module first_norm last_norm dense_linear
      first_in_comp new_first_norm last_out_comp new_dense
    assume loop: "mix_layers (embeddings_LayerNorm model) (encoder_layer model)
           = Inr (new_layers, last_module)"
      and first: "embeddings_LayerNorm model = LayerNormWithCompactor first_norm"
      and last: "last_module = LayerNormWithCompactor last_norm"
      and dense: "pooler_dense model = Some (Linear dense_linear)"
      and ext: "compactor_extract (in_comp first_norm) Output (snd (parse (ln_mask first_norm)))
           (Some (fst (parse (ln_mask first_norm)))) = Inr first_in_comp"
        "layer_norm_extract first_norm (snd (parse (ln_mask first_norm))) = Inr new_first_norm"
        "compactor_extract (out_comp last_norm) Input (snd (parse (ln_mask last_norm)))
           (Some (fst (parse (ln_mask last_norm)))) = Inr last_out_comp"
        "merge last_out_comp dense_linear = Inr new_dense"
      and new: "new_model = model\<lparr>encoder_layer := new_layers,
                       embeddings_LayerNorm :=
                         Sequential [Linear first_in_comp, PackedLayerNorm new_first_norm],
                       pooler_dense := Some (Linear new_dense)\<rparr>"
    from mix_layers_nth [OF loop] have
      len: "length new_layers = length (encoder_layer model)"
      and fin: "last_module = (if encoder_layer model = [] then embeddings_LayerNorm model
                               else output_LayerNorm (last (encoder_layer model)))"
      and nth: "\<forall>i<length (encoder_layer model). \<exists>cur.
             mix_layer (if i = 0 then embeddings_LayerNorm model
                        else output_LayerNorm (encoder_layer model ! (i - 1)))
               (encoder_layer model ! i) = Inr (new_layers ! i, cur)"
      by blast+
    have heads: "num_attention_heads new_model = num_attention_heads model"
      and layers: "encoder_layer new_model = new_layers"
      and emb: "embeddings_LayerNorm new_model
                 = Sequential [Linear first_in_comp, PackedLayerNorm new_first_norm]"
      and pool: "pooler_dense new_model = Some (Linear new_dense)"
      using new by simp_all
    have comp: "list_all compacted_layer (encoder_layer new_model)"
      using mix_layers_compacted [OF loop] layers by simp
    have prec: "preceding_norm model (length (encoder_layer model))
                  = LayerNormWithCompactor last_norm"
      using fin last by (cases "encoder_layer model = []")
        (simp_all add: preceding_norm_def last_conv_nth)
    have each: "\<exists>norm0 norm1 norm2 q k v ob w1l w2m
            norm0_out_comp norm1_in_comp norm1_out_comp norm2_in_comp qc kc vc oc w2a
            new_norm1 new_norm2 query key val outp w1 w2 residual1 residual2.
            preceding_norm model i = LayerNormWithCompactor norm0
          \<and> attention_output_LayerNorm (encoder_layer model ! i) = LayerNormWithCompactor norm1
          \<and> output_LayerNorm (encoder_layer model ! i) = LayerNormWithCompactor norm2
          \<and> attention_self_query (encoder_layer model ! i) = LinearWithCompactorAfter q
          \<and> attention_self_key (encoder_layer model ! i) = LinearWithCompactorAfter k
          \<and> attention_self_value (encoder_layer model ! i) = LinearWithCompactorAfter v
          \<and> attention_output_dense (encoder_layer model ! i) = LinearWithCompactorBefore ob
          \<and> intermediate_dense (encoder_layer model ! i) = Linear w1l
          \<and> output_dense (encoder_layer model ! i) = LinearWithMaskBefore w2m
          \<and> compactor_extract (out_comp norm0) Input (snd (parse (ln_mask norm0)))
               (Some (fst (parse (ln_mask norm0)))) = Inr norm0_out_comp
          \<and> compactor_extract (in_comp norm1) Output (snd (parse (ln_mask norm1)))
               (Some (fst (parse (ln_mask norm1)))) = Inr norm1_in_comp
          \<and> compactor_extract (out_comp norm1) Input (snd (parse (ln_mask norm1)))
               (Some (fst (parse (ln_mask norm1)))) = Inr norm1_out_comp
          \<and> compactor_extract (in_comp norm2) Output (snd (parse (ln_mask norm2)))
               (Some (fst (parse (ln_mask norm2)))) = Inr norm2_in_comp
          \<and> compactor_extract (lca_compactor q) Output (snd (parse (lca_mask q)))
               (Some (fst (parse (lca_mask q)))) = Inr qc
          \<and> compactor_extract (lca_compactor k) Output (snd (parse (lca_mask q))) None = Inr kc
          \<and> compactor_extract (lca_compactor v) Output (snd (parse (lca_mask v)))
               (Some (fst (parse (lca_mask v)))) = Inr vc
          \<and> compactor_extract (lcb_compactor ob) Input (snd (parse (lca_mask v))) None = Inr oc
          \<and> mask_before_extract w2m (snd (parse (lmb_mask w2m))) (fst (parse (lmb_mask w2m)))
               = Inr w2a
          \<and> layer_norm_extract norm1 (snd (parse (ln_mask norm1))) = Inr new_norm1
          \<and> attention_output_LayerNorm (encoder_layer new_model ! i) = PackedLayerNorm new_norm1
          \<and> layer_norm_extract norm2 (snd (parse (ln_mask norm2))) = Inr new_norm2
          \<and> output_LayerNorm (encoder_layer new_model ! i) = PackedLayerNorm new_norm2
          \<and> bind (merge norm0_out_comp (lca_base q)) (\<lambda>q1. merge q1 qc) = Inr query
          \<and> attention_self_query (encoder_layer new_model ! i) = Linear query
          \<and> bind (merge norm0_out_comp (lca_base k)) (\<lambda>k1. merge k1 kc) = Inr key
          \<and> attention_self_key (encoder_layer new_model ! i) = Linear key
          \<and> bind (merge norm0_out_comp (lca_base v)) (\<lambda>v1. merge v1 vc) = Inr val
          \<and> attention_self_value (encoder_layer new_model ! i) = Linear val
          \<and> bind (merge oc (lcb_base ob)) (\<lambda>o1. merge o1 norm1_in_comp) = Inr outp
          \<and> attention_output_dense (encoder_layer new_model ! i) = Linear outp
          \<and> bind (merge norm1_out_comp w1l)
               (\<lambda>w1a. merge_mask w1a (snd (parse (lmb_mask w2m)))) = Inr w1
          \<and> intermediate_dense (encoder_layer new_model ! i) = Linear w1
          \<and> merge w2a norm2_in_comp = Inr w2
          \<and> output_dense (encoder_layer new_model ! i) = Linear w2
          \<and> merge norm0_out_comp norm1_in_comp = Inr residual1
          \<and> attention_output_residual (encoder_layer new_model ! i) = Linear residual1
          \<and> merge norm1_out_comp norm2_in_comp = Inr residual2
          \<and> output_residual (encoder_layer new_model ! i) = Linear residual2
          \<and> attention_output_mask (encoder_layer new_model ! i) = attention_output_mask (encoder_layer model ! i)
          \<and> output_mask (encoder_layer new_model ! i) = output_mask (encoder_layer model ! i)"
      if "i < length (encoder_layer model)" for i
    proof -
      from nth that obtain cur where
        "mix_layer (preceding_norm model i) (encoder_layer model ! i)
           = Inr (encoder_layer new_model ! i, cur)"
        unfolding preceding_norm_def layers by blast
      from mix_layer_slots [OF this] show ?thesis by (rule conjunct2)
    qed
    have ends: "\<exists>first_norm last_norm dense first_in_comp new_first_norm last_out_comp new_dense.
            embeddings_LayerNorm model = LayerNormWithCompactor first_norm
          \<and> preceding_norm model (length (encoder_layer model)) = LayerNormWithCompactor last_norm
          \<and> pooler_dense model = Some (Linear dense)
          \<and> compactor_extract (in_comp first_norm) Output (snd (parse (ln_mask first_norm)))
               (Some (fst (parse (ln_mask first_norm)))) = Inr first_in_comp
          \<and> layer_norm_extract first_norm (snd (parse (ln_mask first_norm))) = Inr new_first_norm
          \<and> embeddings_LayerNorm new_model
               = Sequential [Linear first_in_comp, PackedLayerNorm new_first_norm]
          \<and> compactor_extract (out_comp last_norm) Input (snd (parse (ln_mask last_norm)))
               (Some (fst (parse (ln_mask last_norm)))) = Inr last_out_comp
          \<and> merge last_out_comp dense = Inr new_dense
          \<and> pooler_dense new_model = Some (Linear new_dense)"
      using first prec dense ext emb pool
      by (intro exI conjI) (simp; fail | assumption)+
    from heads len layers comp each ends show ?thesis
      by (intro conjI allI impI) simp_all
  qed
qed

text \<open>The amended C6 at \<open>ex_model\<close> and its layer \<open>0\<close>.\<close>

theorem mix_replaces_slots_witness:
  "mix ex_factory ex_state_dict_of ex_model = Inr (ex_new_model, ex_packed_model)
   \<and> num_attention_heads ex_new_model = num_attention_heads ex_model
   \<and> length (encoder_layer ex_new_model) = length (encoder_layer ex_model)
   \<and> list_all compacted_layer (encoder_layer ex_new_model)
   \<and> (\<exists>norm0 norm1 norm2 q k v ob w1l w2m
          norm0_out_comp norm1_in_comp norm1_out_comp norm2_in_comp qc kc vc oc w2a
          new_norm1 new_norm2 query key val outp w1 w2 residual1 residual2.
          preceding_norm ex_model 0 = LayerNormWithCompactor norm0
        \<and> attention_output_LayerNorm (encoder_layer ex_model ! 0) = LayerNormWithCompactor norm1
        \<and> output_LayerNorm (encoder_layer ex_model ! 0) = LayerNormWithCompactor norm2
        \<and> attention_self_query (encoder_layer ex_model ! 0) = LinearWithCompactorAfter q
        \<and> attention_self_key (encoder_layer ex_model ! 0) = LinearWithCompactorAfter k
        \<and> attention_self_value (encoder_layer ex_model ! 0) = LinearWithCompactorAfter v
        \<and> attention_output_dense (encoder_layer ex_model ! 0) = LinearWithCompactorBefore ob
        \<and> intermediate_dense (encoder_layer ex_model ! 0) = Linear w1l
        \<and> output_dense (encoder_layer ex_model ! 0) = LinearWithMaskBefore w2m
        \<and> compactor_extract (out_comp norm0) Input (snd (parse (ln_mask norm0)))
             (Some (fst (parse (ln_mask norm0)))) = Inr norm0_out_comp
        \<and> compactor_extract (in_comp norm1) Output (snd (parse (ln_mask norm1)))
             (Some (fst (parse (ln_mask norm1)))) = Inr norm1_in_comp
        \<and> compactor_extract (out_comp norm1) Input (snd (parse (ln_mask norm1)))
             (Some (fst (parse (ln_mask norm1)))) = Inr norm1_out_comp
        \<and> compactor_extract (in_comp norm2) Output (snd (parse (ln_mask norm2)))
             (Some (fst (parse (ln_mask norm2)))) = Inr norm2_in_comp
        \<and> compactor_extract (lca_compactor q) Output (snd (parse (lca_mask q)))
             (Some (fst (parse (lca_mask q)))) = Inr qc
        \<and> compactor_extract (lca_compactor k) Output (snd (parse (lca_mask q))) None = Inr kc
        \<and> compactor_extract (lca_compactor v) Output (snd (parse (lca_mask v)))
             (Some (fst (parse (lca_mask v)))) = Inr vc
        \<and> compactor_extract (lcb_compactor ob) Input (snd (parse (lca_mask v))) None = Inr oc
        \<and> mask_before_extract w2m (snd (parse (lmb_mask w2m))) (fst (parse (lmb_mask w2m)))
             = Inr w2a
        \<and> layer_norm_extract norm1 (snd (parse (ln_mask norm1))) = Inr new_norm1
        \<and> attention_output_LayerNorm (encoder_layer ex_new_model ! 0) = PackedLayerNorm new_norm1
        \<and> layer_norm_extract norm2 (snd (parse (ln_mask norm2))) = Inr new_norm2
        \<and> output_LayerNorm (encoder_layer ex_new_model ! 0) = PackedLayerNorm new_norm2
        \<and> bind (merge norm0_out_comp (lca_base q)) (\<lambda>q1. merge q1 qc) = Inr query
        \<and> attention_self_query (encoder_layer ex_new_model ! 0) = Linear query
        \<and> bind (merge norm0_out_comp (lca_base k)) (\<lambda>k1. merge k1 kc) = Inr key
        \<and> attention_self_key (encoder_layer ex_new_model ! 0) = Linear key
        \<and> bind (merge norm0_out_comp (lca_base v)) (\<lambda>v1. merge v1 vc) = Inr val
        \<and> attention_self_value (encoder_layer ex_new_model ! 0) = Linear val
        \<and> bind (merge oc (lcb_base ob)) (\<lambda>o1. merge o1 norm1_in_comp) = Inr outp
        \<and> attention_output_dense (encoder_layer ex_new_model ! 0) = Linear outp
        \<and> bind (merge norm1_out_comp w1l)
             (\<lambda>w1a. merge_mask w1a (snd (parse (lmb_mask w2m)))) = Inr w1
        \<and> intermediate_dense (encoder_layer ex_new_model ! 0) = Linear w1
        \<and> merge w2a norm2_in_comp = Inr w2
        \<and> output_dense (encoder_layer ex_new_model ! 0) = Linear w2
        \<and> merge norm0_out_comp norm1_in_comp = Inr residual1
        \<and> attention_output_residual (encoder_layer ex_new_model ! 0) = Linear residual1
        \<and> merge norm1_out_comp norm2_in_comp = Inr residual2
        \<and> output_residual (encoder_layer ex_new_model ! 0) = Linear residual2
        \<and> attention_output_mask (encoder_layer ex_new_model ! 0) = attention_output_mask (encoder_layer ex_model ! 0)
        \<and> output_mask (encoder_layer ex_new_model ! 0) = output_mask (encoder_layer ex_model ! 0))
   \<and> (\<exists>first_norm last_norm dense first_in_comp new_first_norm last_out_comp new_dense.
          embeddings_LayerNorm ex_model = LayerNormWithCompactor first_norm
        \<and> preceding_norm ex_model (length (encoder_layer ex_model)) = LayerNormWithCompactor last_norm
        \<and> pooler_dense ex_model = Some (Linear dense)
        \<and> compactor_extract (in_comp first_norm) Output (snd (parse (ln_mask first_norm)))
             (Some (fst (parse (ln_mask first_norm)))) = Inr first_in_comp
        \<and> layer_norm_extract first_norm (snd (parse (ln_mask first_norm))) = Inr new_first_norm
        \<and> embeddings_LayerNorm ex_new_model
             = Sequential [Linear first_in_comp, PackedLayerNorm new_first_norm]
        \<and> compactor_extract (out_comp last_norm) Input (snd (parse (ln_mask last_norm)))
             (Some (fst (parse (ln_mask last_norm)))) = Inr last_out_comp
        \<and> merge last_out_comp dense = Inr new_dense
        \<and> pooler_dense ex_new_model = Some (Linear new_dense))"
proof -
  have h: "mix ex_factory ex_state_dict_of ex_model = Inr (ex_new_model, ex_packed_model)"
    by code_simp
  have first: "0 < length (encoder_layer ex_model)"
    by (simp add: ex_model_def)
  note all = mix_replaces_slots [OF h]
  from all have layer: "\<forall>i<length (encoder_layer ex_model).
             \<exists>norm0 norm1 norm2 q k v ob w1l w2m
                norm0_out_comp norm1_in_comp norm1_out_comp norm2_in_comp qc kc vc oc w2a
                new_norm1 new_norm2 query key val outp w1 w2 residual1 residual2.
                preceding_norm ex_model i = LayerNormWithCompactor norm0
              \<and> attention_output_LayerNorm (encoder_layer ex_model ! i) = LayerNormWithCompactor norm1
              \<and> output_LayerNorm (encoder_layer ex_model ! i) = LayerNormWithCompactor norm2
              \<and> attention_self_query (encoder_layer ex_model ! i) = LinearWithCompactorAfter q
              \<and> attention_self_key (encoder_layer ex_model ! i) = LinearWithCompactorAfter k
              \<and> attention_self_value (encoder_layer ex_model ! i) = LinearWithCompactorAfter v
              \<and> attention_output_dense (encoder_layer ex_model ! i) = LinearWithCompactorBefore ob
              \<and> intermediate_dense (encoder_layer ex_model ! i) = Linear w1l
              \<and> output_dense (encoder_layer ex_model ! i) = LinearWithMaskBefore w2m
              \<and> compactor_extract (out_comp norm0) Input (snd (parse (ln_mask norm0)))
                   (Some (fst (parse (ln_mask norm0)))) = Inr norm0_out_comp
              \<and> compactor_extract (in_comp norm1) Output (snd (parse (ln_mask norm1)))
                   (Some (fst (parse (ln_mask norm1)))) = Inr norm1_in_comp
              \<and> compactor_extract (out_comp norm1) Input (snd (parse (ln_mask norm1)))
                   (Some (fst (parse (ln_mask norm1)))) = Inr norm1_out_comp
              \<and> compactor_extract (in_comp norm2) Output (snd (parse (ln_mask norm2)))
                   (Some (fst (parse (ln_mask norm2)))) = Inr norm2_in_comp
              \<and> compactor_extract (lca_compactor q) Output (snd (parse (lca_mask q)))
                   (Some (fst (parse (lca_mask q)))) = Inr qc
              \<and> compactor_extract (lca_compactor k) Output (snd (parse (lca_mask q))) None = Inr kc
              \<and> compactor_extract (lca_compactor v) Output (snd (parse (lca_mask v)))
                   (Some (fst (parse (lca_mask v)))) = Inr vc
              \<and> compactor_extract (lcb_compactor ob) Input (snd (parse (lca_mask v))) None = Inr oc
              \<and> mask_before_extract w2m (snd (parse (lmb_mask w2m))) (fst (parse (lmb_mask w2m)))
                   = Inr w2a
              \<and> layer_norm_extract norm1 (snd (parse (ln_mask norm1))) = Inr new_norm1
              \<and> attention_output_LayerNorm (encoder_layer ex_new_model ! i) = PackedLayerNorm new_norm1
              \<and> layer_norm_extract norm2 (snd (parse (ln_mask norm2))) = Inr new_norm2
              \<and> output_LayerNorm (encoder_layer ex_new_model ! i) = PackedLayerNorm new_norm2
              \<and> bind (merge norm0_out_comp (lca_base q)) (\<lambda>q1. merge q1 qc) = Inr query
              \<and> attention_self_query (encoder_layer ex_new_model ! i) = Linear query
              \<and> bind (merge norm0_out_comp (lca_base k)) (\<lambda>k1. merge k1 kc) = Inr key
              \<and> attention_self_key (encoder_layer ex_new_model ! i) = Linear key
              \<and> bind (merge norm0_out_comp (lca_base v)) (\<lambda>v1. merge v1 vc) = Inr val
              \<and> attention_self_value (encoder_layer ex_new_model ! i) = Linear val
              \<and> bind (merge oc (lcb_base ob)) (\<lambda>o1. merge o1 norm1_in_comp) = Inr outp
              \<and> attention_output_dense (encoder_layer ex_new_model ! i) = Linear outp
              \<and> bind (merge norm1_out_comp w1l)
                   (\<lambda>w1a. merge_mask w1a (snd (parse (lmb_mask w2m)))) = Inr w1
              \<and> intermediate_dense (encoder_layer ex_new_model ! i) = Linear w1
              \<and> merge w2a norm2_in_comp = Inr w2
              \<and> output_dense (encoder_layer ex_new_model ! i) = Linear w2
              \<and> merge norm0_out_comp norm1_in_comp = Inr residual1
              \<and> attention_output_residual (encoder_layer ex_new_model ! i) = Linear residual1
              \<and> merge norm1_out_comp norm2_in_comp = Inr residual2
              \<and> output_residual (encoder_layer ex_new_model ! i) = Linear residual2
              \<and> attention_output_mask (encoder_layer ex_new_model ! i) = attention_output_mask (encoder_layer ex_model ! i)
              \<and> output_mask (encoder_layer ex_new_model ! i) = output_mask (encoder_layer ex_model ! i)"
    by (elim conjE)
  have at0: "\<exists>norm0 norm1 norm2 q k v ob w1l w2m
          norm0_out_comp norm1_in_comp norm1_out_comp norm2_in_comp qc kc vc oc w2a
          new_norm1 new_norm2 query key val outp w1 w2 residual1 residual2.
          preceding_norm ex_model 0 = LayerNormWithCompactor norm0
        \<and> attention_output_LayerNorm (encoder_layer ex_model ! 0) = LayerNormWithCompactor norm1
        \<and> output_LayerNorm (encoder_layer ex_model ! 0) = LayerNormWithCompactor norm2
        \<and> attention_self_query (encoder_layer ex_model ! 0) = LinearWithCompactorAfter q
        \<and> attention_self_key (encoder_layer ex_model ! 0) = LinearWithCompactorAfter k
        \<and> attention_self_value (encoder_layer ex_model ! 0) = LinearWithCompactorAfter v
        \<and> attention_output_dense (encoder_layer ex_model ! 0) = LinearWithCompactorBefore ob
        \<and> intermediate_dense (encoder_layer ex_model ! 0) = Linear w1l
        \<and> output_dense (encoder_layer ex_model ! 0) = LinearWithMaskBefore w2m
        \<and> compactor_extract (out_comp norm0) Input (snd (parse (ln_mask norm0)))
             (Some (fst (parse (ln_mask norm0)))) = Inr norm0_out_comp
        \<and> compactor_extract (in_comp norm1) Output (snd (parse (ln_mask norm1)))
             (Some (fst (parse (ln_mask norm1)))) = Inr norm1_in_comp
        \<and> compactor_extract (out_comp norm1) Input (snd (parse (ln_mask norm1)))
             (Some (fst (parse (ln_mask norm1)))) = Inr norm1_out_comp
        \<and> compactor_extract (in_comp norm2) Output (snd (parse (ln_mask norm2)))
             (Some (fst (parse (ln_mask norm2)))) = Inr norm2_in_comp
        \<and> compactor_extract (lca_compactor q) Output (snd (parse (lca_mask q)))
             (Some (fst (parse (lca_mask q)))) = Inr qc
        \<and> compactor_extract (lca_compactor k) Output (snd (parse (lca_mask q))) None = Inr kc
        \<and> compactor_extract (lca_compactor v) Output (snd (parse (lca_mask v)))
             (Some (fst (parse (lca_mask v)))) = Inr vc
        \<and> compactor_extract (lcb_compactor ob) Input (snd (parse (lca_mask v))) None = Inr oc
        \<and> mask_before_extract w2m (snd (parse (lmb_mask w2m))) (fst (parse (lmb_mask w2m)))
             = Inr w2a
        \<and> layer_norm_extract norm1 (snd (parse (ln_mask norm1))) = Inr new_norm1
        \<and> attention_output_LayerNorm (encoder_layer ex_new_model ! 0) = PackedLayerNorm new_norm1
        \<and> layer_norm_extract norm2 (snd (parse (ln_mask norm2))) = Inr new_norm2
        \<and> output_LayerNorm (encoder_layer ex_new_model ! 0) = PackedLayerNorm new_norm2
        \<and> bind (merge norm0_out_comp (lca_base q)) (\<lambda>q1. merge q1 qc) = Inr query
        \<and> attention_self_query (encoder_layer ex_new_model ! 0) = Linear query
        \<and> bind (merge norm0_out_comp (lca_base k)) (\<lambda>k1. merge k1 kc) = Inr key
        \<and> attention_self_key (encoder_layer ex_new_model ! 0) = Linear key
        \<and> bind (merge norm0_out_comp (lca_base v)) (\<lambda>v1. merge v1 vc) = Inr val
        \<and> attention_self_value (encoder_layer ex_new_model ! 0) = Linear val
        \<and> bind (merge oc (lcb_base ob)) (\<lambda>o1. merge o1 norm1_in_comp) = Inr outp
        \<and> attention_output_dense (encoder_layer ex_new_model ! 0) = Linear outp
        \<and> bind (merge norm1_out_comp w1l)
             (\<lambda>w1a. merge_mask w1a (snd (parse (lmb_mask w2m)))) = Inr w1
        \<and> intermediate_dense (encoder_layer ex_new_model ! 0) = Linear w1
        \<and> merge w2a norm2_in_comp = Inr w2
        \<and> output_dense (encoder_layer ex_new_model ! 0) = Linear w2
        \<and> merge norm0_out_comp norm1_in_comp = Inr residual1
        \<and> attention_output_residual (encoder_layer ex_new_model ! 0) = Linear residual1
        \<and> merge norm1_out_comp norm2_in_comp = Inr residual2
        \<and> output_residual (encoder_layer ex_new_model ! 0) = Linear residual2
        \<and> attention_output_mask (encoder_layer ex_new_model ! 0) = attention_output_mask (encoder_layer ex_model ! 0)
        \<and> output_mask (encoder_layer ex_new_model ! 0) = output_mask (encoder_layer ex_model ! 0)"
    by (rule layer [rule_format, OF first])
  from all h at0 show ?thesis
    by (elim conjE) (intro conjI; assumption)
qed

text \<open>
  C7. Dimension accounting: whenever \<^verbatim>\<open>mix\<close> returns, the configuration of the packed model
  has one entry for each layer, and in the entry of layer \<open>i\<close> the input width is the number
  of indices kept by the mask of the normalization before the layer, the attention-output
  and feed-forward-output widths are the kept counts of the masks of the post-attention
  and post-feed-forward normalizations, \<^verbatim>\<open>qk_dim\<close> and \<^verbatim>\<open>vo_dim\<close> are the kept counts of the
  masks of the query and value modules, and \<^verbatim>\<open>ffn_dim\<close> is the kept count of the mask of the
  feed-forward output projection.
\<close>

theorem packed_config_widths:
  assumes "mix factory state_dict_of model = Inr (new_model, pm)"
  shows "length (per_layer_config (pm_config pm)) = length (encoder_layer model)
       \<and> (\<forall>i<length (encoder_layer model).
             widths_account (preceding_norm model i) (encoder_layer model ! i)
               (per_layer_config (pm_config pm) ! i))"
  using mix_config [OF assms] by blast

text \<open>C7 at \<open>ex_model\<close> and its layer \<open>0\<close>.\<close>

theorem packed_config_widths_witness:
  "mix ex_factory ex_state_dict_of ex_model = Inr (ex_new_model, ex_packed_model)
   \<and> length (per_layer_config (pm_config ex_packed_model)) = length (encoder_layer ex_model)
   \<and> widths_account (preceding_norm ex_model 0) (encoder_layer ex_model ! 0)
         (per_layer_config (pm_config ex_packed_model) ! 0)"
proof -
  have h: "mix ex_factory ex_state_dict_of ex_model = Inr (ex_new_model, ex_packed_model)"
    by code_simp
  have first: "0 < length (encoder_layer ex_model)"
    by (simp add: ex_model_def)
  from packed_config_widths [OF h] first h show ?thesis by blast
qed

text \<open>
  C8. The claim: \<^verbatim>\<open>prune_attn\<close> is true exactly when the attention sub-block of the layer
  was pruned away entirely, and \<^verbatim>\<open>prune_ffn\<close> likewise for the feed-forward sub-block. The
  code sets both to the constant \<^verbatim>\<open>False\<close> (lines 57-58) and \<^verbatim>\<open>mix\<close> never reads the masks
  of the whole sub-blocks. On \<open>ex_pruned_model\<close> both sub-blocks of the layer are pruned away
  and both flags of its configuration are false.
\<close>

theorem prune_flags_counterexample:
  "mix ex_factory ex_state_dict_of ex_pruned_model = Inr (ex_pruned_new_model, ex_packed_model)
   \<and> attention_pruned (encoder_layer ex_pruned_model ! 0)
   \<and> \<not> prune_attn (per_layer_config (pm_config ex_packed_model) ! 0)
   \<and> ffn_pruned (encoder_layer ex_pruned_model ! 0)
   \<and> \<not> prune_ffn (per_layer_config (pm_config ex_packed_model) ! 0)"
  by code_simp

text \<open>
  C8 as amended: whenever \<^verbatim>\<open>mix\<close> returns, \<^verbatim>\<open>prune_attn\<close> and \<^verbatim>\<open>prune_ffn\<close> are false in the
  configuration of every layer.
\<close>

theorem prune_flags_always_false:
  assumes "mix factory state_dict_of model = Inr (new_model, pm)"
  shows "\<forall>c\<in>set (per_layer_config (pm_config pm)). \<not> prune_attn c \<and> \<not> prune_ffn c"
  using mix_config [OF assms] by blast

text \<open>The amended C8 at \<open>ex_model\<close> and the configuration of its layer \<open>0\<close>.\<close>

theorem prune_flags_always_false_witness:
  "mix ex_factory ex_state_dict_of ex_model = Inr (ex_new_model, ex_packed_model)
   \<and> \<not> prune_attn (per_layer_config (pm_config ex_packed_model) ! 0)
   \<and> \<not> prune_ffn (per_layer_config (pm_config ex_packed_model) ! 0)"
proof -
  have h: "mix ex_factory ex_state_dict_of ex_model = Inr (ex_new_model, ex_packed_model)"
    by code_simp
  have first: "per_layer_config (pm_config ex_packed_model) ! 0
                 \<in> set (per_layer_config (pm_config ex_packed_model))"
    by (simp add: ex_packed_model_def)
  from prune_flags_always_false [OF h] first h show ?thesis by blast
qed

text \<open>
  C9. The weight transfer is permissive. \<^verbatim>\<open>mix\<close> loads the state dictionary of the model
  it has compacted into the packed model with \<^verbatim>\<open>strict=False\<close> (line 226). Whenever the
  compaction and the computation of the configuration succeed, and the tensors that the two
  dictionaries have under one name have one shape, \<^verbatim>\<open>mix\<close> returns the packed model: each
  parameter of the packed model has the tensor that the source has under its name, or its
  fresh tensor when the source lacks the name, and the names that only the source has are
  passed over. No name without a match, on either side, raises an error; by lemma
  \<open>load_state_dict_not_strict\<close> the transfer raises only for a name in both dictionaries
  whose tensors differ in shape.
\<close>

theorem weight_transfer_permissive:
  assumes "mix_model model = Inr new_model"
    and "get_packed_bert_config new_model = Inr p_config"
    and "list_all (\<lambda>(k, t). case map_of (state_dict_of new_model) k of
                               None \<Rightarrow> True
                             | Some s \<Rightarrow> shape s = shape t) (factory p_config)"
  shows "mix factory state_dict_of model
         = Inr (new_model,
                \<lparr>pm_config = p_config,
                 pm_state_dict =
                   map (\<lambda>(k, t). (k, case map_of (state_dict_of new_model) k of
                                        None \<Rightarrow> t
                                      | Some s \<Rightarrow> s)) (factory p_config)\<rparr>)"
proof -
  have load: "load_state_dict (factory p_config) (state_dict_of new_model) False
      = Inr (map (\<lambda>(k, t). (k, case map_of (state_dict_of new_model) k of
                                        None \<Rightarrow> t
                                      | Some s \<Rightarrow> s)) (factory p_config))"
    unfolding load_state_dict_not_strict using no_mismatch [OF assms(3)] by simp
  show ?thesis
    unfolding mix_def assms(1) bind_Inr assms(2) load ..
qed

text \<open>
  C9 at \<open>ex_model\<close>: the source has the parameter of a mask, which the packed model lacks,
  and the packed model has the weight of a task head, which the source lacks.
\<close>

theorem weight_transfer_permissive_witness:
  "mix_model ex_model = Inr ex_new_model
   \<and> get_packed_bert_config ex_new_model = Inr (pm_config ex_packed_model)
   \<and> list_all (\<lambda>(k, t). case map_of (ex_state_dict_of ex_new_model) k of
                               None \<Rightarrow> True
                             | Some s \<Rightarrow> shape s = shape t)
        (ex_factory (pm_config ex_packed_model))
   \<and> map_of (ex_state_dict_of ex_new_model) ''qa_outputs.weight'' = None
   \<and> map_of (ex_factory (pm_config ex_packed_model))
        ''bert.encoder.layer.0.attention.output.mask.log_alpha'' = None
   \<and> map_of (ex_state_dict_of ex_new_model)
        ''bert.encoder.layer.0.attention.output.mask.log_alpha'' \<noteq> None
   \<and> mix ex_factory ex_state_dict_of ex_model
       = Inr (ex_new_model,
              \<lparr>pm_config = pm_config ex_packed_model,
               pm_state_dict =
                 map (\<lambda>(k, t). (k, case map_of (ex_state_dict_of ex_new_model) k of
                                      None \<Rightarrow> t
                                    | Some s \<Rightarrow> s))
                   (ex_factory (pm_config ex_packed_model))\<rparr>)"
proof -
  have h1: "mix_model ex_model = Inr ex_new_model" by code_simp
  have h2: "get_packed_bert_config ex_new_model = Inr (pm_config ex_packed_model)"
    by code_simp
  have target: "ex_factory (pm_config ex_packed_model)
      = [(''bert.pooler.dense.weight'', \<lparr>shape = [2, 1], data = [0, 0]\<rparr>),
         (''qa_outputs.weight'', \<lparr>shape = [2, 2], data = [0, 0, 0, 0]\<rparr>)]"
    by (simp add: ex_factory_def ex_packed_model_def numeral_2_eq_2)
  have source: "ex_state_dict_of ex_new_model
      = [(''bert.pooler.dense.weight'', \<lparr>shape = [2, 1], data = [0, 1]\<rparr>),
         (''bert.encoder.layer.0.attention.output.mask.log_alpha'',
          \<lparr>shape = [1], data = [1]\<rparr>)]"
    by (simp add: ex_state_dict_of_def ex_new_model_def ex_new_layer_def weight_tensor_def)
  have h3: "list_all (\<lambda>(k, t). case map_of (ex_state_dict_of ex_new_model) k of
                               None \<Rightarrow> True
                             | Some s \<Rightarrow> shape s = shape t)
        (ex_factory (pm_config ex_packed_model))"
    by (simp add: target source)
  have h4: "map_of (ex_state_dict_of ex_new_model) ''qa_outputs.weight'' = None"
    "map_of (ex_factory (pm_config ex_packed_model))
        ''bert.encoder.layer.0.attention.output.mask.log_alpha'' = None"
    "map_of (ex_state_dict_of ex_new_model)
        ''bert.encoder.layer.0.attention.output.mask.log_alpha'' \<noteq> None"
    by (simp_all add: target source)
  note inst = weight_transfer_permissive
    [of ex_model ex_new_model "pm_config ex_packed_model" ex_state_dict_of ex_factory,
     OF h1 h2 h3]
  show ?thesis
    by (intro conjI) (rule h1 h2 h3 h4 inst)+
qed

text \<open>
  C10. The mask of the key module is never read: for two models that differ at most in
  the masks of their key modules, \<^verbatim>\<open>mix\<close> has the same outcome, that is the same error or
  the same model left behind and the same packed model, with its configuration and its
  parameters.
\<close>

theorem key_mask_never_read:
  assumes "same_but_key_mask m1 m2"
  shows "mix factory state_dict_of m1 = mix factory state_dict_of m2"
  using mix_model_key_mask [OF assms] by (simp add: mix_def)

text \<open>
  C10 at \<open>ex_model\<close> and \<open>ex_other_key_model\<close>, whose key masks keep no feature and both
  features.
\<close>

theorem key_mask_never_read_witness:
  "same_but_key_mask ex_model ex_other_key_model
   \<and> ex_model \<noteq> ex_other_key_model
   \<and> mix ex_factory ex_state_dict_of ex_model
       = mix ex_factory ex_state_dict_of ex_other_key_model"
proof -
  have h: "same_but_key_mask ex_model ex_other_key_model"
    by (simp add: same_but_key_mask_def same_layer_but_key_mask_def same_key_but_mask_def
        ex_model_def ex_other_key_model_def ex_layer_def)
  have d: "ex_model \<noteq> ex_other_key_model"
    by (simp add: ex_model_def ex_other_key_model_def ex_layer_def ex_key_def)
  from h d key_mask_never_read [OF h] show ?thesis by blast
qed

end
